theory Spec2Isabelle
  imports Complex_Main "HOL-Library.Product_Lexorder" "HOL-Library.Char_ord" "HOL-Library.List_Lexorder"
    "HOL-Library.Multiset"
begin

section \<open>Calendar normalization and task reassignment\<close>

text \<open>
  A shallow embedding of \<^verbatim>\<open>normalizer.py\<close> and \<^verbatim>\<open>reassignment.py\<close>.
  Python exceptions are values of type \<open>error\<close>; a function that may raise returns
  \<open>error + 'a\<close> with \<open>Inl\<close> for the exception. Decoded JSON payloads are
  taken to conform to the provider schema: a field of a JSON object is either absent or
  holds a string (a boolean for \<^verbatim>\<open>isAllDay\<close>), so a key that is absent, and a
  string that is empty, are what "missing" means there. A CSV file is any list of records
  as \<^verbatim>\<open>csv.reader\<close> yields them; a cell that \<^verbatim>\<open>csv.DictReader\<close> fills in for a
  short record is Python's \<^verbatim>\<open>None\<close>. A character is a code point below 256, so
  strings range over Latin-1 text.
\<close>

datatype error = ValueError | OverflowError | AttributeError

subsection \<open>Strings and integers\<close>

text \<open>
  \<^verbatim>\<open>str.strip()\<close> removes the characters for which \<^verbatim>\<open>str.isspace\<close> holds:
  below 256 these are the ASCII whitespace, the four separators \<open>0x1C\<close> to \<open>0x1F\<close>,
  NEL (\<open>0x85\<close>) and the no-break space (\<open>0xA0\<close>).
\<close>

definition is_space :: "char \<Rightarrow> bool" where
  "is_space c = (c \<in> set [CHR 0x09, CHR 0x0A, CHR 0x0B, CHR 0x0C, CHR 0x0D,
                            CHR 0x1C, CHR 0x1D, CHR 0x1E, CHR 0x1F, CHR 0x20,
                            CHR 0x85, CHR 0xA0])"

definition strip :: "string \<Rightarrow> string" where
  "strip s = rev (dropWhile is_space (rev (dropWhile is_space s)))"

text \<open>
  \<^verbatim>\<open>int()\<close> has a whitespace of its own: it turns the non-ASCII whitespace into
  spaces and then skips ASCII whitespace only, so it skips NEL and the no-break space but
  not the separators \<open>0x1C\<close> to \<open>0x1F\<close>.
\<close>

definition is_int_space :: "char \<Rightarrow> bool" where
  "is_int_space c = (c \<in> set [CHR 0x09, CHR 0x0A, CHR 0x0B, CHR 0x0C, CHR 0x0D, CHR 0x20,
                                CHR 0x85, CHR 0xA0])"

definition digit_of :: "char \<Rightarrow> int option" where
  "digit_of = map_of
     [(CHR ''0'', 0), (CHR ''1'', 1), (CHR ''2'', 2), (CHR ''3'', 3), (CHR ''4'', 4),
      (CHR ''5'', 5), (CHR ''6'', 6), (CHR ''7'', 7), (CHR ''8'', 8), (CHR ''9'', 9)]"

text \<open>
  The digits of a decimal literal as \<^verbatim>\<open>int()\<close> reads them: a single underscore
  is allowed between two digits.
\<close>

fun int_digits :: "string \<Rightarrow> int \<Rightarrow> int option" where
  "int_digits [] acc = Some acc"
| "int_digits (c # cs) acc =
     (if c = CHR ''_'' then
        (case cs of
           [] \<Rightarrow> None
         | d # ds \<Rightarrow> (case digit_of d of None \<Rightarrow> None | Some v \<Rightarrow> int_digits cs acc))
      else (case digit_of c of None \<Rightarrow> None | Some v \<Rightarrow> int_digits cs (acc * 10 + v)))"

text \<open>
  The limit on the length of a decimal literal, \<^verbatim>\<open>sys.get_int_max_str_digits()\<close>,
  is a setting of the interpreter: \<open>0\<close> switches it off, as does an interpreter without
  the setting; it only applies beyond 640 digits. Underscores and the sign do not count,
  leading zeros do.
\<close>

definition too_many_digits :: "nat \<Rightarrow> string \<Rightarrow> bool" where
  "too_many_digits max_digits body =
     (let digits = length (filter (\<lambda>c. c \<noteq> CHR ''_'') body)
      in 640 < digits \<and> 0 < max_digits \<and> max_digits < digits)"

text \<open>
  \<^verbatim>\<open>int(s)\<close> in base 10 under the digit limit \<open>max_digits\<close>: surrounding
  whitespace, an optional sign, then digits. Every failure is ValueError.
\<close>

definition py_int :: "nat \<Rightarrow> string \<Rightarrow> error + int" where
  "py_int max_digits s =
     (let t = rev (dropWhile is_int_space (rev (dropWhile is_int_space s)));
          neg = (t \<noteq> [] \<and> hd t = CHR ''-'');
          body = (if t \<noteq> [] \<and> (hd t = CHR ''+'' \<or> hd t = CHR ''-'') then tl t else t)
      in case body of
           [] \<Rightarrow> Inl ValueError
         | c # cs \<Rightarrow>
             (case digit_of c of
                None \<Rightarrow> Inl ValueError
              | Some v \<Rightarrow>
                  (case int_digits body 0 of
                     None \<Rightarrow> Inl ValueError
                   | Some n \<Rightarrow>
                       if too_many_digits max_digits body then Inl ValueError
                       else Inr (if neg then - n else n))))"

fun split_on :: "char \<Rightarrow> string \<Rightarrow> string list" where
  "split_on c [] = [[]]"
| "split_on c (x # xs) =
     (if x = c then [] # split_on c xs
      else (case split_on c xs of [] \<Rightarrow> [[x]] | p # ps \<Rightarrow> (x # p) # ps))"

subsection \<open>Dates and instants\<close>

text \<open>
  A \<^verbatim>\<open>datetime\<close> by its fields. Every instant the normalizer produces carries
  \<^verbatim>\<open>tzinfo=timezone.utc\<close>, so instants compare by their fields.
\<close>

record datetime =
  year :: int
  month :: int
  day :: int
  hour :: int
  minute :: int
  second :: int
  microsecond :: int

type_synonym date = "int \<times> int \<times> int"

definition date_of :: "datetime \<Rightarrow> date" where
  "date_of d = (year d, month d, day d)"

definition dt_key :: "datetime \<Rightarrow> int \<times> int \<times> int \<times> int \<times> int \<times> int \<times> int" where
  "dt_key d = (year d, month d, day d, hour d, minute d, second d, microsecond d)"

definition dt_le :: "datetime \<Rightarrow> datetime \<Rightarrow> bool" where
  "dt_le a b = (dt_key a \<le> dt_key b)"

definition dt_less :: "datetime \<Rightarrow> datetime \<Rightarrow> bool" where
  "dt_less a b = (dt_key a < dt_key b)"

definition is_leap :: "int \<Rightarrow> bool" where
  "is_leap y = (y mod 4 = 0 \<and> (y mod 100 \<noteq> 0 \<or> y mod 400 = 0))"

definition days_in_month :: "int \<Rightarrow> int \<Rightarrow> int" where
  "days_in_month y m =
     (if m = 2 then (if is_leap y then 29 else 28)
      else if m = 4 \<or> m = 6 \<or> m = 9 \<or> m = 11 then 30 else 31)"

definition valid_date :: "int \<Rightarrow> int \<Rightarrow> int \<Rightarrow> bool" where
  "valid_date y m d =
     (1 \<le> y \<and> y \<le> 9999 \<and> 1 \<le> m \<and> m \<le> 12 \<and> 1 \<le> d \<and> d \<le> days_in_month y m)"

text \<open>\<^verbatim>\<open>datetime(y, m, d, tzinfo=timezone.utc)\<close>: midnight, or ValueError.\<close>

definition midnight :: "int \<Rightarrow> int \<Rightarrow> int \<Rightarrow> datetime" where
  "midnight y m d =
     \<lparr>year = y, month = m, day = d, hour = 0, minute = 0, second = 0, microsecond = 0\<rparr>"

definition mk_datetime :: "int \<Rightarrow> int \<Rightarrow> int \<Rightarrow> error + datetime" where
  "mk_datetime y m d = (if valid_date y m d then Inr (midnight y m d) else Inl ValueError)"

text \<open>Proleptic Gregorian ordinals, as \<^verbatim>\<open>datetime\<close> arithmetic uses them.\<close>

definition days_before_year :: "int \<Rightarrow> int" where
  "days_before_year y = (y - 1) * 365 + (y - 1) div 4 - (y - 1) div 100 + (y - 1) div 400"

text \<open>The tables of a common year, and the leap day added as the library adds it.\<close>

definition DAYS_IN_MONTH :: "int \<Rightarrow> int" where
  "DAYS_IN_MONTH m = (if m = 2 then 28 else if m = 4 \<or> m = 6 \<or> m = 9 \<or> m = 11 then 30 else 31)"

fun DAYS_BEFORE_MONTH :: "nat \<Rightarrow> int" where
  "DAYS_BEFORE_MONTH 0 = 0"
| "DAYS_BEFORE_MONTH (Suc k) = (if k = 0 then 0 else DAYS_BEFORE_MONTH k + DAYS_IN_MONTH (int k))"

definition days_before_month :: "int \<Rightarrow> int \<Rightarrow> int" where
  "days_before_month y m = DAYS_BEFORE_MONTH (nat m) + (if 2 < m \<and> is_leap y then 1 else 0)"

definition ymd2ord :: "int \<Rightarrow> int \<Rightarrow> int \<Rightarrow> int" where
  "ymd2ord y m d = days_before_year y + days_before_month y m + d"

definition ord2ymd :: "int \<Rightarrow> date" where
  "ord2ymd n0 =
     (let n = n0 - 1;
          n400 = n div 146097; n = n mod 146097;
          n100 = n div 36524; n = n mod 36524;
          n4 = n div 1461; n = n mod 1461;
          n1 = n div 365; n = n mod 365;
          y = n400 * 400 + 1 + n100 * 100 + n4 * 4 + n1
      in if n1 = 4 \<or> n100 = 4 then (y - 1, 12, 31)
         else
           (let leapyear = (n1 = 3 \<and> (n4 \<noteq> 24 \<or> n100 = 3));
                mth = (n + 50) div 32;
                preceding = DAYS_BEFORE_MONTH (nat mth) + (if 2 < mth \<and> leapyear then 1 else 0)
            in if n < preceding
               then (let mth = mth - 1;
                         preceding = preceding -
                           (DAYS_IN_MONTH mth + (if mth = 2 \<and> leapyear then 1 else 0))
                     in (y, mth, n - preceding + 1))
               else (y, mth, n - preceding + 1)))"

text \<open>
  \<^verbatim>\<open>dt.replace(tzinfo=timezone(timedelta(minutes=off))).astimezone(timezone.utc)\<close>:
  the local fields minus the offset; OverflowError outside the years 1 to 9999.
\<close>

definition astimezone_utc :: "datetime \<Rightarrow> int \<Rightarrow> error + datetime" where
  "astimezone_utc d off =
     (let mins = hour d * 60 + minute d - off;
          ordinal = ymd2ord (year d) (month d) (day d) + mins div 1440;
          m = mins mod 1440
      in if 1 \<le> ordinal \<and> ordinal \<le> 3652059
         then (case ord2ymd ordinal of
                 (y, mo, dd) \<Rightarrow>
                   Inr (d\<lparr>year := y, month := mo, day := dd, hour := m div 60, minute := m mod 60\<rparr>))
         else Inl OverflowError)"

subsection \<open>Timezone helpers\<close>

definition TZ_OFFSETS :: "string \<rightharpoonup> int" where
  "TZ_OFFSETS = map_of
     [(''Pacific Standard Time'', -8), (''Pacific Daylight Time'', -7),
      (''Mountain Standard Time'', -7), (''Mountain Daylight Time'', -6),
      (''Central Standard Time'', -6), (''Central Daylight Time'', -5),
      (''Eastern Standard Time'', -5), (''Eastern Daylight Time'', -4),
      (''UTC'', 0)]"

text \<open>\<^verbatim>\<open>_ms_tz_to_offset\<close>, in minutes.\<close>

definition ms_tz_to_offset :: "string \<Rightarrow> int" where
  "ms_tz_to_offset tz_name = (case TZ_OFFSETS tz_name of None \<Rightarrow> 0 | Some h \<Rightarrow> h) * 60"

subsection \<open>The time parser\<close>

text \<open>
  \<^verbatim>\<open>datetime.fromisoformat\<close> and \<^verbatim>\<open>datetime.strptime(s, "%Y-%m-%dT%H:%M:%S")\<close>
  belong to the standard library, and what the first accepts depends on the interpreter's
  version. The parser takes both as parameters: each maps a string to the fields it reads,
  \<open>None\<close> standing for ValueError. Only the fields matter, since the parser replaces the
  \<^verbatim>\<open>tzinfo\<close> of whatever they return. The digit limit of \<^verbatim>\<open>int()\<close> is the
  third parameter.
\<close>

record pylib =
  fromisoformat :: "string \<Rightarrow> datetime option"
  strptime :: "string \<Rightarrow> datetime option"
  max_str_digits :: nat

text \<open>The first index \<open>i > 0\<close> of the tail that holds a sign, counting from \<open>i\<close>.\<close>

fun find_sign :: "nat \<Rightarrow> string \<Rightarrow> nat option" where
  "find_sign i [] = None"
| "find_sign i (ch # cs) =
     (if 0 < i \<and> (ch = CHR ''+'' \<or> ch = CHR ''-'') then Some i else find_sign (Suc i) cs)"

text \<open>The offset of \<^verbatim>\<open>timezone(timedelta(hours=sign * oh, minutes=sign * om))\<close>, in minutes.\<close>

definition parse_offset :: "nat \<Rightarrow> char \<Rightarrow> string \<Rightarrow> error + int" where
  "parse_offset max_digits ch offset_str =
     (let sign = (if ch = CHR ''+'' then 1 else - 1);
          parts = split_on CHR '':'' (tl offset_str)
      in case py_int max_digits (hd parts) of
           Inl e \<Rightarrow> Inl e
         | Inr oh \<Rightarrow>
             (case (if 1 < length parts then py_int max_digits (parts ! 1) else Inr 0) of
                Inl e \<Rightarrow> Inl e
              | Inr om \<Rightarrow>
                  (let off = sign * oh * 60 + sign * om
                   in if 999999999 < \<bar>off div 1440\<bar> then Inl OverflowError
                      else if - 1440 < off \<and> off < 1440 then Inr off
                      else Inl ValueError)))"

text \<open>The naive branch: the whole string, localized to the hint when there is one.\<close>

definition parse_naive :: "pylib \<Rightarrow> string \<Rightarrow> string option \<Rightarrow> error + datetime" where
  "parse_naive L s tz_hint =
     (case (case fromisoformat L s of Some d \<Rightarrow> Some d | None \<Rightarrow> strptime L s) of
        None \<Rightarrow> Inl ValueError
      | Some dt_naive \<Rightarrow>
          (case tz_hint of
             None \<Rightarrow> Inr dt_naive
           | Some h \<Rightarrow>
               if h \<noteq> [] then astimezone_utc dt_naive (ms_tz_to_offset h) else Inr dt_naive))"

text \<open>
  \<^verbatim>\<open>_parse_dt_to_utc\<close>. The loop over \<^verbatim>\<open>("+", "-")\<close> runs the same body twice;
  the body returns or raises at the first sign it finds after the first character of the
  tail, unless the text before the sign is not a date-time, in which case it breaks and
  the naive branch takes the whole string.
\<close>

definition parse_dt_to_utc :: "pylib \<Rightarrow> string \<Rightarrow> string option \<Rightarrow> error + datetime" where
  "parse_dt_to_utc L dt_str tz_hint =
     (let s = strip dt_str
      in if length s = 10 then
           (case py_int (max_str_digits L) (take 4 s) of
              Inl e \<Rightarrow> Inl e
            | Inr y \<Rightarrow>
                (case py_int (max_str_digits L) (take 2 (drop 5 s)) of
                   Inl e \<Rightarrow> Inl e
                 | Inr m \<Rightarrow>
                     (case py_int (max_str_digits L) (take 2 (drop 8 s)) of
                        Inl e \<Rightarrow> Inl e
                      | Inr d \<Rightarrow> mk_datetime y m d)))
         else if CHR ''T'' \<in> set s then
           (let body = takeWhile (\<lambda>c. c \<noteq> CHR ''T'') s;
                tail = tl (dropWhile (\<lambda>c. c \<noteq> CHR ''T'') s)
            in case find_sign 0 tail of
                 None \<Rightarrow> parse_naive L s tz_hint
               | Some i \<Rightarrow>
                   (case fromisoformat L (body @ ''T'' @ take i tail) of
                      None \<Rightarrow> parse_naive L s tz_hint
                    | Some dt_naive \<Rightarrow>
                        (case parse_offset (max_str_digits L) (tail ! i) (drop i tail) of
                           Inl e \<Rightarrow> Inl e
                         | Inr off \<Rightarrow> astimezone_utc dt_naive off)))
         else parse_naive L s tz_hint)"

subsection \<open>The canonical event\<close>

text \<open>
  \<^verbatim>\<open>event_id\<close> holds whatever the source has under \<^verbatim>\<open>id\<close>: a string, or
  \<^verbatim>\<open>None\<close> for the missing cell of a short CSV record.
\<close>

record NormalizedEvent =
  event_id :: "string option"
  source :: string
  employee_id :: string
  employee_email :: string
  title :: string
  availability :: string
  start_utc :: datetime
  end_utc :: datetime
  is_all_day :: bool

text \<open>\<^verbatim>\<open>d.get(k, default)\<close> on a string field, and \<^verbatim>\<open>a or b\<close> on strings.\<close>

definition get_str :: "string option \<Rightarrow> string \<Rightarrow> string" where
  "get_str v dflt = (case v of None \<Rightarrow> dflt | Some s \<Rightarrow> s)"

definition py_or :: "string \<Rightarrow> string \<Rightarrow> string" where
  "py_or a b = (if a \<noteq> [] then a else b)"

text \<open>
  The guard and the \<^verbatim>\<open>try\<close> block that the three normalizers share word for word:
  an event without a start is skipped, so is one whose start or end raises in the parser,
  and a missing end takes the start. \<open>None\<close> is \<^verbatim>\<open>continue\<close>.
\<close>

definition parse_times ::
  "pylib \<Rightarrow> string \<Rightarrow> string \<Rightarrow> string option \<Rightarrow> (datetime \<times> datetime) option" where
  "parse_times L start_str end_str tz_hint =
     (if start_str = [] then None
      else case parse_dt_to_utc L start_str tz_hint of
             Inl e \<Rightarrow> None
           | Inr s_utc \<Rightarrow>
               (case (if end_str \<noteq> [] then parse_dt_to_utc L end_str tz_hint else Inr s_utc) of
                  Inl e \<Rightarrow> None
                | Inr e_utc \<Rightarrow> Some (s_utc, e_utc)))"

subsection \<open>Google JSON normalizer\<close>

record g_time =
  g_dateTime :: "string option"
  g_date :: "string option"
  g_timeZone :: "string option"

text \<open>
  A Google event. The three \<open>g_priv\<close> fields are the entries of
  \<^verbatim>\<open>extendedProperties.private\<close>, \<open>g_creator_email\<close> is \<^verbatim>\<open>creator.email\<close>.
\<close>

record g_event =
  g_id :: "string option"
  g_summary :: "string option"
  g_creator_email :: "string option"
  g_priv_employeeId :: "string option"
  g_priv_employeeEmail :: "string option"
  g_priv_availabilityKind :: "string option"
  g_start :: "g_time option"
  g_end :: "g_time option"

definition g_obj :: "g_time option \<Rightarrow> g_time" where
  "g_obj v = (case v of None \<Rightarrow> \<lparr>g_dateTime = None, g_date = None, g_timeZone = None\<rparr>
                       | Some t \<Rightarrow> t)"

definition g_time_str :: "g_time \<Rightarrow> string" where
  "g_time_str t = py_or (get_str (g_dateTime t) []) (get_str (g_date t) [])"

definition g_start_str :: "g_event \<Rightarrow> string" where
  "g_start_str ev = g_time_str (g_obj (g_start ev))"

definition g_end_str :: "g_event \<Rightarrow> string" where
  "g_end_str ev = g_time_str (g_obj (g_end ev))"

definition g_tz_hint :: "g_event \<Rightarrow> string option" where
  "g_tz_hint ev = g_timeZone (g_obj (g_start ev))"

definition google_event :: "pylib \<Rightarrow> g_event \<Rightarrow> NormalizedEvent option" where
  "google_event L ev =
     (let emp_id = get_str (g_priv_employeeId ev) [];
          emp_email = py_or (get_str (g_priv_employeeEmail ev) []) (get_str (g_creator_email ev) []);
          avail = get_str (g_priv_availabilityKind ev) ''busy'';
          start_obj = g_obj (g_start ev);
          all_day = (g_date start_obj \<noteq> None \<and> g_dateTime start_obj = None)
      in case parse_times L (g_start_str ev) (g_end_str ev) (g_tz_hint ev) of
           None \<Rightarrow> None
         | Some (s_utc, e_utc) \<Rightarrow>
             Some \<lparr>event_id = Some (get_str (g_id ev) []), source = ''google'',
                   employee_id = emp_id, employee_email = emp_email,
                   title = get_str (g_summary ev) [], availability = avail,
                   start_utc = s_utc, end_utc = e_utc, is_all_day = all_day\<rparr>)"

text \<open>The loop \<^verbatim>\<open>for ev in items\<close>, appending to \<^verbatim>\<open>results\<close>.\<close>

fun normalize_loop :: "('a \<Rightarrow> NormalizedEvent option) \<Rightarrow> 'a list \<Rightarrow> NormalizedEvent list
    \<Rightarrow> NormalizedEvent list" where
  "normalize_loop f [] results = results"
| "normalize_loop f (ev # items) results =
     (case f ev of
        None \<Rightarrow> normalize_loop f items results
      | Some e \<Rightarrow> normalize_loop f items (results @ [e]))"

text \<open>\<^verbatim>\<open>normalize_google_json\<close> on the decoded file; \<open>None\<close> is a file without \<^verbatim>\<open>items\<close>.\<close>

definition normalize_google_json :: "pylib \<Rightarrow> g_event list option \<Rightarrow> NormalizedEvent list" where
  "normalize_google_json L data =
     normalize_loop (google_event L) (case data of None \<Rightarrow> [] | Some items \<Rightarrow> items) []"

subsection \<open>The roster\<close>

text \<open>
  An employee of the roster. \<^verbatim>\<open>id\<close> is an integer in the store and is compared
  through \<^verbatim>\<open>str\<close>; \<^verbatim>\<open>max_tasks_per_day\<close> may be absent.
\<close>

record employee =
  emp_id :: int
  emp_email :: string
  emp_first_name :: string
  emp_last_name :: string
  emp_skills :: "string list"
  emp_max_tasks_per_day :: "int option"

text \<open>\<^verbatim>\<open>str\<close> of an integer: its decimal digits, with a leading minus sign.\<close>

function str_nat :: "nat \<Rightarrow> string" where
  "str_nat n = (if n < 10 then [''0123456789'' ! n] else str_nat (n div 10) @ [''0123456789'' ! (n mod 10)])"
  by pat_completeness auto
termination
  by (relation "measure (\<lambda>n. n)") auto

declare str_nat.simps [simp del]

definition py_str :: "int \<Rightarrow> string" where
  "py_str i = (if i < 0 then CHR ''-'' # str_nat (nat (- i)) else str_nat (nat i))"

subsection \<open>Google CSV normalizer\<close>

text \<open>
  \<^verbatim>\<open>csv.DictReader\<close> over the records of the file. The first record names the
  columns, empty records after it are skipped, and every other record becomes a dictionary
  from column names to cells: a later column of the same name overwrites an earlier one,
  and a record shorter than the header gets \<^verbatim>\<open>None\<close> in the columns it lacks. The
  cells of a longer record beyond the header go under the key \<^verbatim>\<open>None\<close>, which none
  of the string keys reads; they are left out.
\<close>

type_synonym csv_dict = "string \<rightharpoonup> string option"

definition dict_row :: "string list \<Rightarrow> string list \<Rightarrow> csv_dict" where
  "dict_row fieldnames row =
     (let d = fold (\<lambda>(k, v) d. d(k \<mapsto> Some v)) (zip fieldnames row) Map.empty
      in if length row < length fieldnames
         then fold (\<lambda>k d. d(k \<mapsto> None)) (drop (length row) fieldnames) d
         else d)"

definition DictReader :: "string list list \<Rightarrow> csv_dict list" where
  "DictReader records =
     (case records of
        [] \<Rightarrow> []
      | fieldnames # rows \<Rightarrow> map (dict_row fieldnames) (filter (\<lambda>row. row \<noteq> []) rows))"

text \<open>
  \<^verbatim>\<open>row.get(k, "")\<close>: the default stands in for a column that the file does not
  have, not for the \<^verbatim>\<open>None\<close> of a short record. \<^verbatim>\<open>None\<close> and the empty string
  are the two values that a condition takes as false.
\<close>

definition row_get :: "csv_dict \<Rightarrow> string \<Rightarrow> string \<Rightarrow> string option" where
  "row_get row k dflt = (case row k of None \<Rightarrow> Some dflt | Some cell \<Rightarrow> cell)"

definition truthy :: "string option \<Rightarrow> bool" where
  "truthy v = (case v of None \<Rightarrow> False | Some s \<Rightarrow> s \<noteq> [])"

text \<open>\<^verbatim>\<open>str.lower()\<close> on Latin-1: the ASCII capitals and the accented capitals.\<close>

definition lower_char :: "char \<Rightarrow> char" where
  "lower_char c =
     (case map_of (zip ''ABCDEFGHIJKLMNOPQRSTUVWXYZ'' ''abcdefghijklmnopqrstuvwxyz'' @
        [(CHR 0xC0, CHR 0xE0), (CHR 0xC1, CHR 0xE1), (CHR 0xC2, CHR 0xE2), (CHR 0xC3, CHR
         0xE3), (CHR 0xC4, CHR 0xE4), (CHR 0xC5, CHR 0xE5), (CHR 0xC6, CHR 0xE6), (CHR 0xC7,
         CHR 0xE7), (CHR 0xC8, CHR 0xE8), (CHR 0xC9, CHR 0xE9), (CHR 0xCA, CHR 0xEA), (CHR
         0xCB, CHR 0xEB), (CHR 0xCC, CHR 0xEC), (CHR 0xCD, CHR 0xED), (CHR 0xCE, CHR 0xEE),
         (CHR 0xCF, CHR 0xEF), (CHR 0xD0, CHR 0xF0), (CHR 0xD1, CHR 0xF1), (CHR 0xD2, CHR
         0xF2), (CHR 0xD3, CHR 0xF3), (CHR 0xD4, CHR 0xF4), (CHR 0xD5, CHR 0xF5), (CHR 0xD6,
         CHR 0xF6), (CHR 0xD8, CHR 0xF8), (CHR 0xD9, CHR 0xF9), (CHR 0xDA, CHR 0xFA), (CHR
         0xDB, CHR 0xFB), (CHR 0xDC, CHR 0xFC), (CHR 0xDD, CHR 0xFD), (CHR 0xDE, CHR 0xFE)]) c of
        None \<Rightarrow> c
      | Some l \<Rightarrow> l)"

definition lower :: "string \<Rightarrow> string" where
  "lower s = map lower_char s"

text \<open>\<^verbatim>\<open>k in s\<close> on strings.\<close>

fun contains :: "string \<Rightarrow> string \<Rightarrow> bool" where
  "contains k [] = (k = [])"
| "contains k (c # cs) = (take (length k) (c # cs) = k \<or> contains k cs)"

definition ooo_keywords :: "string list" where
  "ooo_keywords = [''ooo'', ''pto'', ''vacation'', ''sick'', ''out of office'']"

text \<open>
  The body of the loop over the rows. The guard on the start comes first; the keyword
  test then calls \<^verbatim>\<open>summary.lower()\<close> outside the \<^verbatim>\<open>try\<close> block, which raises
  AttributeError when the summary is \<^verbatim>\<open>None\<close>. \<open>Inr None\<close> is \<^verbatim>\<open>continue\<close>.
\<close>

definition csv_event :: "pylib \<Rightarrow> csv_dict \<Rightarrow> error + NormalizedEvent option" where
  "csv_event L row =
     (let start_str = row_get row ''start'' [];
          end_str = row_get row ''end'' []
      in if \<not> truthy start_str then Inr None
         else
           (case row_get row ''summary'' [] of
              None \<Rightarrow> Inl AttributeError
            | Some summary \<Rightarrow>
                (let avail = (if list_ex (\<lambda>k. contains k (lower summary)) ooo_keywords
                              then ''oof'' else ''busy'')
                 in case parse_times L (get_str start_str []) (get_str end_str []) None of
                      None \<Rightarrow> Inr None
                    | Some (s_utc, e_utc) \<Rightarrow>
                        Inr (Some \<lparr>event_id = row_get row ''id'' [], source = ''google_csv'',
                                   employee_id = [], employee_email = [],
                                   title = summary, availability = avail,
                                   start_utc = s_utc, end_utc = e_utc,
                                   is_all_day = (length (strip (get_str start_str [])) = 10)\<rparr>))))"

text \<open>The loop \<^verbatim>\<open>for row in reader\<close>; an exception of the body ends the call.\<close>

fun csv_loop :: "pylib \<Rightarrow> csv_dict list \<Rightarrow> NormalizedEvent list
    \<Rightarrow> error + NormalizedEvent list" where
  "csv_loop L [] results = Inr results"
| "csv_loop L (row # reader) results =
     (case csv_event L row of
        Inl e \<Rightarrow> Inl e
      | Inr None \<Rightarrow> csv_loop L reader results
      | Inr (Some ev) \<Rightarrow> csv_loop L reader (results @ [ev]))"

text \<open>
  \<^verbatim>\<open>normalize_google_csv\<close> on the records of the file. The lookup from emails to
  ids is built from \<^verbatim>\<open>employee_db\<close> first and read by nothing afterwards.
\<close>

definition normalize_google_csv ::
  "pylib \<Rightarrow> string list list \<Rightarrow> employee list option \<Rightarrow> error + NormalizedEvent list" where
  "normalize_google_csv L records employee_db =
     (let email_to_id =
            (case employee_db of
               None \<Rightarrow> Map.empty
             | Some db \<Rightarrow> fold (\<lambda>emp m. m(emp_email emp \<mapsto> py_str (emp_id emp))) db Map.empty)
      in csv_loop L (DictReader records) [])"

subsection \<open>Microsoft JSON normalizer\<close>

record ms_ext =
  x_employeeId :: "string option"
  x_employeeEmail :: "string option"
  x_availabilityKind :: "string option"

record ms_time =
  m_dateTime :: "string option"
  m_timeZone :: "string option"

text \<open>A Microsoft event; \<open>m_organizer_address\<close> is \<^verbatim>\<open>organizer.emailAddress.address\<close>.\<close>

record ms_event =
  m_id :: "string option"
  m_subject :: "string option"
  m_extensions :: "ms_ext list"
  m_organizer_address :: "string option"
  m_showAs :: "string option"
  m_isAllDay :: "bool option"
  m_start :: "ms_time option"
  m_end :: "ms_time option"

definition m_obj :: "ms_time option \<Rightarrow> ms_time" where
  "m_obj v = (case v of None \<Rightarrow> \<lparr>m_dateTime = None, m_timeZone = None\<rparr> | Some t \<Rightarrow> t)"

definition m_start_str :: "ms_event \<Rightarrow> string" where
  "m_start_str ev = get_str (m_dateTime (m_obj (m_start ev))) []"

definition m_end_str :: "ms_event \<Rightarrow> string" where
  "m_end_str ev = get_str (m_dateTime (m_obj (m_end ev))) []"

definition m_tz_hint :: "ms_event \<Rightarrow> string option" where
  "m_tz_hint ev = m_timeZone (m_obj (m_start ev))"

definition microsoft_event :: "pylib \<Rightarrow> ms_event \<Rightarrow> NormalizedEvent option" where
  "microsoft_event L ev =
     (let found = List.find (\<lambda>ext. x_employeeId ext \<noteq> None) (m_extensions ev);
          emp_id = (case found of None \<Rightarrow> [] | Some ext \<Rightarrow> get_str (x_employeeId ext) []);
          emp_email = (case found of None \<Rightarrow> [] | Some ext \<Rightarrow> get_str (x_employeeEmail ext) []);
          avail_kind = (case found of None \<Rightarrow> [] | Some ext \<Rightarrow> get_str (x_availabilityKind ext) []);
          emp_email = (if emp_email = [] then get_str (m_organizer_address ev) [] else emp_email);
          show_as = get_str (m_showAs ev) ''busy'';
          avail_kind = (if avail_kind = [] then (if show_as = ''oof'' then ''oof'' else ''busy'')
                        else avail_kind);
          all_day = (case m_isAllDay ev of None \<Rightarrow> False | Some b \<Rightarrow> b)
      in case parse_times L (m_start_str ev) (m_end_str ev) (m_tz_hint ev) of
           None \<Rightarrow> None
         | Some (s_utc, e_utc) \<Rightarrow>
             Some \<lparr>event_id = Some (get_str (m_id ev) []), source = ''microsoft'',
                   employee_id = emp_id, employee_email = emp_email,
                   title = get_str (m_subject ev) [], availability = avail_kind,
                   start_utc = s_utc, end_utc = e_utc, is_all_day = all_day\<rparr>)"

definition normalize_microsoft_json :: "pylib \<Rightarrow> ms_event list option \<Rightarrow> NormalizedEvent list" where
  "normalize_microsoft_json L data =
     normalize_loop (microsoft_event L) (case data of None \<Rightarrow> [] | Some items \<Rightarrow> items) []"

subsection \<open>The availability query\<close>

text \<open>An entry of the result, \<^verbatim>\<open>{**emp, "employee_id": emp_id}\<close>.\<close>

record avail_entry =
  entry_emp :: employee
  entry_employee_id :: string

record availability_result =
  result_date :: date
  available :: "avail_entry list"
  unavailable :: "avail_entry list"
  available_count :: nat
  unavailable_count :: nat

text \<open>The first loop of \<^verbatim>\<open>get_available_employees\<close>, collecting the busy ids and emails.\<close>

fun busy_loop :: "NormalizedEvent list \<Rightarrow> date \<Rightarrow> string set \<times> string set
    \<Rightarrow> string set \<times> string set" where
  "busy_loop [] target_date acc = acc"
| "busy_loop (ev # events) target_date (busy_ids, busy_emails) =
     (if availability ev \<noteq> ''busy'' \<and> availability ev \<noteq> ''oof''
      then busy_loop events target_date (busy_ids, busy_emails)
      else
        (let ev_start_date = date_of (start_utc ev);
             ev_end_date = date_of (end_utc ev);
             overlaps = (if is_all_day ev
                         then ev_start_date \<le> target_date \<and> target_date < ev_end_date
                         else ev_start_date \<le> target_date \<and> target_date \<le> ev_end_date)
         in if overlaps
            then busy_loop events target_date
                   (if employee_id ev \<noteq> [] then insert (employee_id ev) busy_ids else busy_ids,
                    if employee_email ev \<noteq> [] then insert (employee_email ev) busy_emails
                    else busy_emails)
            else busy_loop events target_date (busy_ids, busy_emails)))"

text \<open>The second loop, sorting the roster into the two lists.\<close>

fun roster_loop :: "employee list \<Rightarrow> string set \<Rightarrow> string set
    \<Rightarrow> avail_entry list \<times> avail_entry list \<Rightarrow> avail_entry list \<times> avail_entry list" where
  "roster_loop [] busy_ids busy_emails acc = acc"
| "roster_loop (emp # all_employees) busy_ids busy_emails (avail, unavail) =
     (let e_id = py_str (emp_id emp);
          is_busy = (e_id \<in> busy_ids \<or> emp_email emp \<in> busy_emails);
          entry = \<lparr>entry_emp = emp, entry_employee_id = e_id\<rparr>
      in if is_busy
         then roster_loop all_employees busy_ids busy_emails (avail, unavail @ [entry])
         else roster_loop all_employees busy_ids busy_emails (avail @ [entry], unavail))"

definition get_available_employees ::
  "NormalizedEvent list \<Rightarrow> employee list \<Rightarrow> datetime \<Rightarrow> availability_result" where
  "get_available_employees events all_employees query_date =
     (let target_date = date_of query_date
      in case busy_loop events target_date ({}, {}) of
           (busy_ids, busy_emails) \<Rightarrow>
             (case roster_loop all_employees busy_ids busy_emails ([], []) of
                (avail, unavail) \<Rightarrow>
                  \<lparr>result_date = target_date, available = avail, unavailable = unavail,
                   available_count = length avail, unavailable_count = length unavail\<rparr>))"

text \<open>
  \<^verbatim>\<open>get_events_for_date\<close>. The dictionary that \<^verbatim>\<open>to_dict\<close> builds holds the
  fields of the event, the two instants in ISO format; it is represented by the event.
\<close>

fun events_loop :: "NormalizedEvent list \<Rightarrow> date \<Rightarrow> NormalizedEvent list \<Rightarrow> NormalizedEvent list" where
  "events_loop [] target_date result = result"
| "events_loop (ev # events) target_date result =
     (let ev_start = date_of (start_utc ev);
          ev_end = date_of (end_utc ev);
          overlaps = (if is_all_day ev
                      then ev_start \<le> target_date \<and> target_date < ev_end
                      else ev_start \<le> target_date \<and> target_date \<le> ev_end)
      in if overlaps then events_loop events target_date (result @ [ev])
         else events_loop events target_date result)"

definition get_events_for_date :: "NormalizedEvent list \<Rightarrow> datetime \<Rightarrow> NormalizedEvent list" where
  "get_events_for_date events query_date = events_loop events (date_of query_date) []"

subsection \<open>Floating point\<close>

text \<open>
  \<^verbatim>\<open>round((task_count / max(max_tasks, 1)) * 100)\<close> is computed in binary64: the
  quotient of two integers and the product with 100 are each rounded to the nearest double,
  ties to even, and \<^verbatim>\<open>round\<close> then rounds the product to the nearest integer, ties
  to even. A double is represented by the rational it denotes. The quotients and products
  formed here are at most 100 times the length of a list, so the overflow of the format is
  not modelled.
\<close>

definition py_round :: "rat \<Rightarrow> int" where
  "py_round x =
     (let f = \<lfloor>x\<rfloor>; d = x - of_int f
      in if d < 1 / 2 then f else if 1 / 2 < d then f + 1 else if even f then f else f + 1)"

definition pow2 :: "int \<Rightarrow> rat" where
  "pow2 e = (if 0 \<le> e then 2 ^ nat e else 1 / 2 ^ nat (- e))"

text \<open>\<^verbatim>\<open>int.bit_length\<close> on positive integers.\<close>

function bit_length :: "int \<Rightarrow> nat" where
  "bit_length n = (if n \<le> 0 then 0 else Suc (bit_length (n div 2)))"
  by pat_completeness auto
termination
  by (relation "measure (\<lambda>n. nat n)") auto

declare bit_length.simps [simp del]

text \<open>The binary exponent of a positive rational \<open>x\<close>: the \<open>e\<close> with \<open>2\<^sup>e \<le> x < 2\<^sup>e\<^sup>+\<^sup>1\<close>.\<close>

definition binary_exponent :: "rat \<Rightarrow> int" where
  "binary_exponent x =
     (case quotient_of x of
        (p, q) \<Rightarrow>
          (let e0 = int (bit_length p) - int (bit_length q)
           in if pow2 e0 \<le> x then e0 else e0 - 1))"

text \<open>
  The nearest double: 53 significant bits, and multiples of \<open>2\<^sup>-\<^sup>1\<^sup>0\<^sup>7\<^sup>4\<close> in the
  subnormal range.
\<close>

definition to_double :: "rat \<Rightarrow> rat" where
  "to_double x =
     (if x = 0 then 0
      else (let e = max (binary_exponent \<bar>x\<bar> - 52) (- 1074)
            in sgn x * of_int (py_round (\<bar>x\<bar> / pow2 e)) * pow2 e))"

text \<open>True division of two integers, and the product of a double with an integer constant.\<close>

definition truediv :: "int \<Rightarrow> int \<Rightarrow> rat" where
  "truediv a b = to_double (of_int a / of_int b)"

definition fmul :: "rat \<Rightarrow> int \<Rightarrow> rat" where
  "fmul x k = to_double (x * of_int k)"

subsection \<open>Tasks and utilization\<close>

text \<open>
  A task of the store, with the fields that the engine reads or writes.
  \<^verbatim>\<open>effort_hours\<close> only feeds the sum \<^verbatim>\<open>active_task_hours\<close>, a float that no
  decision depends on; both are left out.
\<close>

record task =
  task_id :: string
  task_title :: "string option"
  task_status :: "string option"
  task_priority :: "string option"
  required_skills :: "string list"
  assigned_to_id :: "int option"
  last_reassigned :: "string option"
  reassignment_reason :: "string option"

text \<open>\<^verbatim>\<open>str(t.get("assigned_to_id", ""))\<close> and the test \<^verbatim>\<open>status in ("in_progress", "todo")\<close>.\<close>

definition assignee_str :: "task \<Rightarrow> string" where
  "assignee_str t = (case assigned_to_id t of None \<Rightarrow> [] | Some i \<Rightarrow> py_str i)"

definition is_active :: "task \<Rightarrow> bool" where
  "is_active t = (task_status t = Some ''in_progress'' \<or> task_status t = Some ''todo'')"

text \<open>An employee annotated with workload metrics.\<close>

record util_entry =
  ue_emp :: employee
  is_available :: bool
  active_task_count :: nat
  active_tasks :: "task list"
  calendar_event_count :: nat
  utilization_pct :: int
  free_capacity :: int

text \<open>
  The body of the loop over the roster in \<^verbatim>\<open>get_utilization\<close>;
  \<^verbatim>\<open>emp.get("max_tasks_per_day", 4)\<close> is the case distinction on the field.
\<close>

definition utilization_entry ::
  "string set \<Rightarrow> NormalizedEvent list \<Rightarrow> task list \<Rightarrow> employee \<Rightarrow> util_entry" where
  "utilization_entry available_ids day_events tasks emp =
     (let e_id = py_str (emp_id emp);
          max_tasks = (case emp_max_tasks_per_day emp of None \<Rightarrow> 4 | Some n \<Rightarrow> n);
          act = filter (\<lambda>t. assignee_str t = e_id \<and> is_active t) tasks;
          task_count = length act;
          cal_events = filter (\<lambda>e. (employee_id e = e_id \<or> employee_email e = emp_email emp)
                                      \<and> \<not> is_all_day e) day_events
      in \<lparr>ue_emp = emp,
          is_available = (e_id \<in> available_ids),
          active_task_count = task_count,
          active_tasks = act,
          calendar_event_count = length cal_events,
          utilization_pct = min 100 (py_round (fmul (truediv (int task_count) (max max_tasks 1)) 100)),
          free_capacity = max 0 (max_tasks - int task_count)\<rparr>)"

text \<open>The key of the final sort: available first, then utilization, then free capacity.\<close>

definition load_key :: "util_entry \<Rightarrow> nat \<times> int \<times> int" where
  "load_key e = (if is_available e then 0 else 1, utilization_pct e, - free_capacity e)"

definition get_utilization ::
  "NormalizedEvent list \<Rightarrow> employee list \<Rightarrow> task list \<Rightarrow> datetime \<Rightarrow> util_entry list" where
  "get_utilization events employees tasks query_date =
     (let avail_result = get_available_employees events employees query_date;
          available_ids = set (map (\<lambda>e. py_str (emp_id (entry_emp e))) (available avail_result));
          day_events = get_events_for_date events query_date;
          results = map (utilization_entry available_ids day_events tasks) employees
      in sort_key load_key results)"

subsection \<open>Candidate scoring and suggestions\<close>

definition score_candidate :: "util_entry \<Rightarrow> task \<Rightarrow> int" where
  "score_candidate candidate t =
     (let required = set (required_skills t);
          skills = set (emp_skills (ue_emp candidate));
          skill_match = card (required \<inter> skills)
      in int skill_match * 15 - utilization_pct candidate - int (calendar_event_count candidate) * 3)"

text \<open>
  A recommended candidate: the serialized employee, represented by its utilization entry,
  with the explanation of its rank. \<^verbatim>\<open>round(score, 1)\<close> of an integer is the integer.
\<close>

record candidate =
  cand_entry :: util_entry
  skill_match_count :: nat
  skill_match_pct :: int
  skill_gap :: "string list"
  score :: int

definition mk_candidate :: "task \<Rightarrow> util_entry \<Rightarrow> candidate" where
  "mk_candidate t emp =
     (let required = set (required_skills t);
          skills = set (emp_skills (ue_emp emp))
      in \<lparr>cand_entry = emp,
          skill_match_count = card (required \<inter> skills),
          skill_match_pct =
            py_round (fmul (truediv (int (card (required \<inter> skills))) (max (int (card required)) 1)) 100),
          skill_gap = sorted_list_of_set (required - skills),
          score = score_candidate emp t\<rparr>)"

definition rank_key :: "candidate \<Rightarrow> int \<times> int" where
  "rank_key c = (- score c, - free_capacity (cand_entry c))"

text \<open>The slice \<^verbatim>\<open>xs[:n]\<close>; a negative \<open>n\<close> counts from the end.\<close>

definition py_slice_to :: "'a list \<Rightarrow> int \<Rightarrow> 'a list" where
  "py_slice_to xs n = (if 0 \<le> n then take (nat n) xs else take (length xs - nat (- n)) xs)"

definition zfill :: "nat \<Rightarrow> string \<Rightarrow> string" where
  "zfill n s = replicate (n - length s) CHR ''0'' @ s"

definition isoformat_date :: "date \<Rightarrow> string" where
  "isoformat_date dt =
     (case dt of (y, m, d) \<Rightarrow>
        zfill 4 (py_str y) @ ''-'' @ zfill 2 (py_str m) @ ''-'' @ zfill 2 (py_str d))"

record suggestion =
  sg_task :: task
  current_assignee :: "util_entry option"
  needs_reassignment :: bool
  reason :: "string option"
  recommendations :: "candidate list"

text \<open>The body of the loop over the active tasks.\<close>

definition suggest_for_task ::
  "util_entry list \<Rightarrow> string \<Rightarrow> int \<Rightarrow> task \<Rightarrow> suggestion" where
  "suggest_for_task utilization target_str top_n t =
     (let util_map = map_of (rev (map (\<lambda>e. (py_str (emp_id (ue_emp e)), e)) utilization));
          unavailable_ids = set (map (\<lambda>e. py_str (emp_id (ue_emp e)))
                                  (filter (\<lambda>e. \<not> is_available e) utilization));
          available_pool = filter (\<lambda>e. is_available e \<and> 0 < free_capacity e) utilization;
          assignee_id = assignee_str t;
          assignee_info = util_map assignee_id
      in if assignee_id \<notin> unavailable_ids
         then \<lparr>sg_task = t, current_assignee = assignee_info, needs_reassignment = False,
               reason = None, recommendations = []\<rparr>
         else
           (let candidates = map (mk_candidate t)
                  (filter (\<lambda>emp. py_str (emp_id (ue_emp emp)) \<noteq> assignee_id) available_pool);
                candidates = sort_key rank_key candidates
            in \<lparr>sg_task = t, current_assignee = assignee_info, needs_reassignment = True,
                 reason = Some (''Assignee unavailable on '' @ target_str),
                 recommendations = py_slice_to candidates top_n\<rparr>))"

definition priority_order :: "string \<rightharpoonup> nat" where
  "priority_order = map_of [(''critical'', 0), (''high'', 1), (''medium'', 2), (''low'', 3)]"

definition suggestion_key :: "suggestion \<Rightarrow> nat \<times> nat" where
  "suggestion_key s =
     (if needs_reassignment s then 0 else 1,
      case task_priority (sg_task s) of
        None \<Rightarrow> 9
      | Some p \<Rightarrow> (case priority_order p of None \<Rightarrow> 9 | Some r \<Rightarrow> r))"

record reassignment_report =
  report_date :: string
  total_tasks_checked :: nat
  needs_reassignment_count :: nat
  suggestions :: "suggestion list"
  utilization_snapshot :: "util_entry list"

definition suggest_reassignments ::
  "NormalizedEvent list \<Rightarrow> employee list \<Rightarrow> task list \<Rightarrow> datetime \<Rightarrow> int
    \<Rightarrow> reassignment_report" where
  "suggest_reassignments events employees tasks query_date top_n =
     (let target_str = isoformat_date (date_of query_date);
          utilization = get_utilization events employees tasks query_date;
          act = filter is_active tasks;
          sugg = map (suggest_for_task utilization target_str top_n) act;
          sugg = sort_key suggestion_key sugg
      in \<lparr>report_date = target_str,
          total_tasks_checked = length act,
          needs_reassignment_count = length (filter needs_reassignment sugg),
          suggestions = sugg,
          utilization_snapshot = utilization\<rparr>)"

subsection \<open>Executing a reassignment\<close>

text \<open>
  The store is the decoded content of the database file. \<^verbatim>\<open>execute_reassignment\<close>
  reads it, and writes it back only after both lookups succeeded; the function returns
  its result together with the content of the file afterwards. Both failures are
  \<^verbatim>\<open>ValueError\<close> with a message saying which id was not found. The two readings of
  the clock are parameters.
\<close>

record store =
  db_tasks :: "task list"
  db_employees :: "employee list"

datatype not_found = Task_not_found string | Employee_not_found int

record audit =
  audit_task_id :: string
  audit_task_title :: "string option"
  from_employee_id :: "int option"
  from_employee_name :: string
  to_employee_id :: int
  to_employee_name :: string
  audit_reason :: string
  executed_at :: string

text \<open>The assignment to the fields of the first task with the given id, in place.\<close>

fun update_first :: "('a \<Rightarrow> bool) \<Rightarrow> ('a \<Rightarrow> 'a) \<Rightarrow> 'a list \<Rightarrow> 'a list" where
  "update_first P f [] = []"
| "update_first P f (x # xs) = (if P x then f x # xs else x # update_first P f xs)"

definition full_name :: "employee \<Rightarrow> string" where
  "full_name e = emp_first_name e @ '' '' @ emp_last_name e"

definition execute_reassignment ::
  "string \<Rightarrow> string \<Rightarrow> store \<Rightarrow> string \<Rightarrow> int \<Rightarrow> string \<Rightarrow> (not_found + audit) \<times> store" where
  "execute_reassignment now1 now2 db tid new_assignee_id why =
     (case List.find (\<lambda>t. task_id t = tid) (db_tasks db) of
        None \<Rightarrow> (Inl (Task_not_found tid), db)
      | Some t \<Rightarrow>
          (case List.find (\<lambda>e. emp_id e = new_assignee_id) (db_employees db) of
             None \<Rightarrow> (Inl (Employee_not_found new_assignee_id), db)
           | Some new_emp \<Rightarrow>
               (let old_emp = List.find (\<lambda>e. Some (emp_id e) = assigned_to_id t) (db_employees db);
                    old_assignee_id = assigned_to_id t;
                    db' = db\<lparr>db_tasks :=
                             update_first (\<lambda>t. task_id t = tid)
                               (\<lambda>t. t\<lparr>assigned_to_id := Some new_assignee_id,
                                       last_reassigned := Some now1,
                                       reassignment_reason := Some why\<rparr>)
                               (db_tasks db)\<rparr>
                in (Inr \<lparr>audit_task_id = tid, audit_task_title = task_title t,
                         from_employee_id = old_assignee_id,
                         from_employee_name =
                           (case old_emp of None \<Rightarrow> ''Unknown'' | Some e \<Rightarrow> full_name e),
                         to_employee_id = new_assignee_id,
                         to_employee_name = full_name new_emp,
                         audit_reason = why, executed_at = now2\<rparr>,
                    db'))))"

subsection \<open>Reference notions for the normalizers\<close>

text \<open>
  The date that a string of exactly ten characters in \<^verbatim>\<open>YYYY-MM-DD\<close> form denotes:
  four digits, a hyphen, two digits, a hyphen, two digits, naming a day of the calendar
  in the years 1 to 9999, the range of \<^verbatim>\<open>datetime\<close>.
\<close>

definition ymd_value :: "string \<Rightarrow> date option" where
  "ymd_value s =
     (case s of
        [y1, y2, y3, y4, h1, m1, m2, h2, d1, d2] \<Rightarrow>
          (case (digit_of y1, digit_of y2, digit_of y3, digit_of y4,
                 digit_of m1, digit_of m2, digit_of d1, digit_of d2) of
             (Some a, Some b, Some c, Some d, Some e, Some f, Some g, Some h) \<Rightarrow>
               if h1 = CHR ''-'' \<and> h2 = CHR ''-''
                  \<and> valid_date (1000 * a + 100 * b + 10 * c + d) (10 * e + f) (10 * g + h)
               then Some (1000 * a + 100 * b + 10 * c + d, 10 * e + f, 10 * g + h)
               else None
           | _ \<Rightarrow> None)
      | _ \<Rightarrow> None)"

text \<open>
  A source event is unusable when its start is missing, or when its start, or an end that
  is present, fails to parse.
\<close>

definition unusable :: "pylib \<Rightarrow> string \<Rightarrow> string \<Rightarrow> string option \<Rightarrow> bool" where
  "unusable L start_str end_str tz_hint =
     (start_str = [] \<or> isl (parse_dt_to_utc L start_str tz_hint)
      \<or> (end_str \<noteq> [] \<and> isl (parse_dt_to_utc L end_str tz_hint)))"

definition g_unusable :: "pylib \<Rightarrow> g_event \<Rightarrow> bool" where
  "g_unusable L ev = unusable L (g_start_str ev) (g_end_str ev) (g_tz_hint ev)"

text \<open>
  The start and end of a CSV row as strings; a cell missing from a short record, like a
  column missing from the file, counts as empty.
\<close>

definition c_start_str :: "csv_dict \<Rightarrow> string" where
  "c_start_str row = get_str (row_get row ''start'' []) []"

definition c_end_str :: "csv_dict \<Rightarrow> string" where
  "c_end_str row = get_str (row_get row ''end'' []) []"

definition c_unusable :: "pylib \<Rightarrow> csv_dict \<Rightarrow> bool" where
  "c_unusable L row = unusable L (c_start_str row) (c_end_str row) None"

text \<open>A row that has a start and whose summary is \<^verbatim>\<open>None\<close>.\<close>

definition summary_missing :: "csv_dict \<Rightarrow> bool" where
  "summary_missing row = (c_start_str row \<noteq> [] \<and> row_get row ''summary'' [] = None)"

definition m_unusable :: "pylib \<Rightarrow> ms_event \<Rightarrow> bool" where
  "m_unusable L ev = unusable L (m_start_str ev) (m_end_str ev) (m_tz_hint ev)"

text \<open>
  The instants of a canonical event are the parsed instants of a source event: the start
  is the parsed start, the end is the parsed end, or the start when the end is missing.
\<close>

definition times_from_source ::
  "pylib \<Rightarrow> string \<Rightarrow> string \<Rightarrow> string option \<Rightarrow> NormalizedEvent \<Rightarrow> bool" where
  "times_from_source L start_str end_str tz_hint e =
     (parse_dt_to_utc L start_str tz_hint = Inr (start_utc e)
      \<and> (if end_str = [] then end_utc e = start_utc e
         else parse_dt_to_utc L end_str tz_hint = Inr (end_utc e)))"

text \<open>A source event is reversed when its end is present and parses to an instant before its start.\<close>

definition reversed :: "pylib \<Rightarrow> string \<Rightarrow> string \<Rightarrow> string option \<Rightarrow> bool" where
  "reversed L start_str end_str tz_hint =
     (end_str \<noteq> [] \<and>
      (case (parse_dt_to_utc L start_str tz_hint, parse_dt_to_utc L end_str tz_hint) of
         (Inr s_utc, Inr e_utc) \<Rightarrow> dt_less e_utc s_utc
       | _ \<Rightarrow> False))"

definition items_of :: "'a list option \<Rightarrow> 'a list" where
  "items_of data = (case data of None \<Rightarrow> [] | Some items \<Rightarrow> items)"

subsection \<open>A sample library and sample payloads\<close>

text \<open>
  A library instance for evaluating the model: both functions read exactly the form
  \<^verbatim>\<open>YYYY-MM-DDTHH:MM:SS\<close>, which every version of the standard library reads
  the same way, and reject everything else. The digit limit is the default one.
\<close>

definition two_digits :: "char \<Rightarrow> char \<Rightarrow> int option" where
  "two_digits a b =
     (case (digit_of a, digit_of b) of (Some x, Some y) \<Rightarrow> Some (10 * x + y) | _ \<Rightarrow> None)"

definition iso_basic :: "string \<Rightarrow> datetime option" where
  "iso_basic s =
     (case s of
        [y1, y2, y3, y4, h1, m1, m2, h2, d1, d2, t, H1, H2, c1, M1, M2, c2, S1, S2] \<Rightarrow>
          (case (two_digits y1 y2, two_digits y3 y4, two_digits m1 m2, two_digits d1 d2,
                 two_digits H1 H2, two_digits M1 M2, two_digits S1 S2) of
             (Some ya, Some yb, Some mo, Some dd, Some hh, Some mi, Some ss) \<Rightarrow>
               if h1 = CHR ''-'' \<and> h2 = CHR ''-'' \<and> t = CHR ''T'' \<and> c1 = CHR '':'' \<and> c2 = CHR '':''
                  \<and> valid_date (100 * ya + yb) mo dd \<and> hh < 24 \<and> mi < 60 \<and> ss < 60
               then Some \<lparr>year = 100 * ya + yb, month = mo, day = dd, hour = hh, minute = mi,
                           second = ss, microsecond = 0\<rparr>
               else None
           | _ \<Rightarrow> None)
      | _ \<Rightarrow> None)"

definition basic_lib :: pylib where
  "basic_lib = \<lparr>fromisoformat = iso_basic, strptime = iso_basic, max_str_digits = 4300\<rparr>"

text \<open>An all-day Google event whose end date lies before its start date.\<close>

definition reversed_event :: g_event where
  "reversed_event =
     \<lparr>g_id = Some ''e1'', g_summary = Some ''Offsite'', g_creator_email = None,
      g_priv_employeeId = Some ''7'', g_priv_employeeEmail = None,
      g_priv_availabilityKind = None,
      g_start = Some \<lparr>g_dateTime = None, g_date = Some ''2026-03-02'', g_timeZone = None\<rparr>,
      g_end = Some \<lparr>g_dateTime = None, g_date = Some ''2026-03-01'', g_timeZone = None\<rparr>\<rparr>"

text \<open>A timed Google event, an event without a start, and one whose start is no date.\<close>

definition timed_event :: g_event where
  "timed_event =
     \<lparr>g_id = Some ''e2'', g_summary = Some ''Standup'', g_creator_email = Some ''ann@example.com'',
      g_priv_employeeId = None, g_priv_employeeEmail = None, g_priv_availabilityKind = None,
      g_start = Some \<lparr>g_dateTime = Some ''2026-02-24T11:30:00-05:00'', g_date = None,
                      g_timeZone = Some ''Eastern Standard Time''\<rparr>,
      g_end = Some \<lparr>g_dateTime = Some ''2026-02-24T12:00:00-05:00'', g_date = None,
                    g_timeZone = Some ''Eastern Standard Time''\<rparr>\<rparr>"

definition no_start_event :: g_event where
  "no_start_event = timed_event\<lparr>g_id := Some ''e3'', g_start := None\<rparr>"

definition bad_start_event :: g_event where
  "bad_start_event =
     timed_event\<lparr>g_id := Some ''e4'',
        g_start := Some \<lparr>g_dateTime = Some ''next tuesday'', g_date = None, g_timeZone = None\<rparr>\<rparr>"

definition open_ended_event :: g_event where
  "open_ended_event =
     \<lparr>g_id = Some ''e5'', g_summary = Some ''Leave'', g_creator_email = None,
      g_priv_employeeId = Some ''7'', g_priv_employeeEmail = None,
      g_priv_availabilityKind = Some ''oof'',
      g_start = Some \<lparr>g_dateTime = None, g_date = Some ''2026-03-02'', g_timeZone = None\<rparr>,
      g_end = None\<rparr>"

text \<open>
  The records of a CSV export in the column order that \<^verbatim>\<open>GoogleCalender.py\<close> writes:
  a row without an end, one without a start, one whose end is no date, a reversed one, and
  a short one that stops after its start.
\<close>

definition export_header :: "string list" where
  "export_header =
     [''id'', ''status'', ''summary'', ''description'', ''start'', ''end'', ''htmlLink'', ''updated'']"

definition sample_csv :: "string list list" where
  "sample_csv =
     [export_header,
      [''c1'', ''confirmed'', ''PTO'', [], ''2026-03-02'', [], [], []],
      [''c2'', ''confirmed'', ''Lunch'', [], [], ''2026-03-02'', [], []],
      [],
      [''c3'', ''confirmed'', ''Review'', [], ''2026-03-05'', ''tomorrow'', [], []],
      [''c4'', ''confirmed'', ''Trip'', [], ''2026-03-09'', ''2026-03-07'', [], []],
      [''c5'', ''confirmed'', ''Out of Office'', [], ''2026-03-10'']]"

text \<open>
  A file whose header puts the summary after the start, with one short record: it has a
  start, which names no calendar day, and lacks the end and the summary.
\<close>

definition short_csv :: "string list list" where
  "short_csv = [[''id'', ''start'', ''end'', ''summary''], [''c9'', ''2026-13-45'']]"

text \<open>Microsoft events, usable and not.\<close>

definition sample_ms_events :: "ms_event list" where
  "sample_ms_events =
     [\<lparr>m_id = Some ''m1'', m_subject = Some ''Sync'',
       m_extensions = [\<lparr>x_employeeId = Some ''9'', x_employeeEmail = Some ''bo@example.com'',
                         x_availabilityKind = None\<rparr>],
       m_organizer_address = None, m_showAs = Some ''oof'', m_isAllDay = Some False,
       m_start = Some \<lparr>m_dateTime = Some ''2026-03-02T09:00:00'',
                       m_timeZone = Some ''Pacific Standard Time''\<rparr>,
       m_end = Some \<lparr>m_dateTime = Some ''2026-03-02T10:00:00'',
                     m_timeZone = Some ''Pacific Standard Time''\<rparr>\<rparr>,
      \<lparr>m_id = Some ''m2'', m_subject = None, m_extensions = [],
       m_organizer_address = Some ''cy@example.com'', m_showAs = None, m_isAllDay = None,
       m_start = None, m_end = None\<rparr>]"

definition sample_items :: "g_event list" where
  "sample_items = [reversed_event, timed_event, no_start_event, bad_start_event, open_ended_event]"

subsection \<open>Reference notions for the availability query\<close>

text \<open>
  The overlap rule in the words of the specification: an all-day event covers the dates
  from its start date up to, not including, its end date; a timed event covers the dates
  from its start date up to and including its end date.
\<close>

definition overlaps_date :: "NormalizedEvent \<Rightarrow> date \<Rightarrow> bool" where
  "overlaps_date ev target_date =
     (if is_all_day ev
      then date_of (start_utc ev) \<le> target_date \<and> target_date < date_of (end_utc ev)
      else date_of (start_utc ev) \<le> target_date \<and> target_date \<le> date_of (end_utc ev))"

text \<open>An event blocks a date when it is busy or out-of-office and overlaps the date.\<close>

definition blocks :: "NormalizedEvent \<Rightarrow> date \<Rightarrow> bool" where
  "blocks ev target_date =
     ((availability ev = ''busy'' \<or> availability ev = ''oof'') \<and> overlaps_date ev target_date)"

text \<open>An event matches an employee by a non-empty id or by a non-empty email.\<close>

definition matches :: "NormalizedEvent \<Rightarrow> employee \<Rightarrow> bool" where
  "matches ev emp =
     ((employee_id ev \<noteq> [] \<and> employee_id ev = py_str (emp_id emp))
      \<or> (employee_email ev \<noteq> [] \<and> employee_email ev = emp_email emp))"

definition is_blocked :: "NormalizedEvent list \<Rightarrow> date \<Rightarrow> employee \<Rightarrow> bool" where
  "is_blocked events target_date emp = list_ex (\<lambda>ev. blocks ev target_date \<and> matches ev emp) events"

definition mk_entry :: "employee \<Rightarrow> avail_entry" where
  "mk_entry emp = \<lparr>entry_emp = emp, entry_employee_id = py_str (emp_id emp)\<rparr>"

text \<open>The events of the scenarios, built directly from their instants.\<close>

definition at_time :: "int \<Rightarrow> int \<Rightarrow> int \<Rightarrow> int \<Rightarrow> int \<Rightarrow> datetime" where
  "at_time y m d hh mm =
     \<lparr>year = y, month = m, day = d, hour = hh, minute = mm, second = 0, microsecond = 0\<rparr>"

definition all_day_sample :: NormalizedEvent where
  "all_day_sample =
     \<lparr>event_id = Some ''a1'', source = ''google'', employee_id = ''1'', employee_email = [],
      title = ''Conference'', availability = ''oof'',
      start_utc = midnight 2026 3 1, end_utc = midnight 2026 3 3, is_all_day = True\<rparr>"

definition timed_sample :: NormalizedEvent where
  "timed_sample =
     \<lparr>event_id = Some ''t1'', source = ''microsoft'', employee_id = [],
      employee_email = ''bo@example.com'', title = ''Sync'', availability = ''busy'',
      start_utc = at_time 2026 3 1 9 0, end_utc = at_time 2026 3 1 10 0, is_all_day = False\<rparr>"

definition sample_roster :: "employee list" where
  "sample_roster =
     [\<lparr>emp_id = 1, emp_email = ''al@example.com'', emp_first_name = ''Al'', emp_last_name = ''Ng'',
       emp_skills = [''payments'', ''api''], emp_max_tasks_per_day = Some 4\<rparr>,
      \<lparr>emp_id = 2, emp_email = ''bo@example.com'', emp_first_name = ''Bo'', emp_last_name = ''Li'',
       emp_skills = [''payments''], emp_max_tasks_per_day = Some 4\<rparr>,
      \<lparr>emp_id = 7, emp_email = ''cy@example.com'', emp_first_name = ''Cy'', emp_last_name = ''Ro'',
       emp_skills = [''infra''], emp_max_tasks_per_day = None\<rparr>]"

text \<open>What the Google normalizer makes of \<open>open_ended_event\<close>, an all-day leave without an end.\<close>

definition leave_event :: NormalizedEvent where
  "leave_event =
     \<lparr>event_id = Some ''e5'', source = ''google'', employee_id = ''7'', employee_email = [],
      title = ''Leave'', availability = ''oof'',
      start_utc = midnight 2026 3 2, end_utc = midnight 2026 3 2, is_all_day = True\<rparr>"

text \<open>A timed event that leaves its owner available, and the tasks of the sample roster.\<close>

definition free_sample :: NormalizedEvent where
  "free_sample =
     \<lparr>event_id = Some ''f1'', source = ''google'', employee_id = ''2'', employee_email = [],
      title = ''Office hours'', availability = ''free'',
      start_utc = at_time 2026 3 2 14 0, end_utc = at_time 2026 3 2 15 0, is_all_day = False\<rparr>"

definition sample_events :: "NormalizedEvent list" where
  "sample_events = [all_day_sample, timed_sample, free_sample]"

definition sample_tasks :: "task list" where
  "sample_tasks =
     [\<lparr>task_id = ''T1'', task_title = Some ''Fix checkout'', task_status = Some ''in_progress'',
       task_priority = Some ''high'', required_skills = [''payments'', ''api''],
       assigned_to_id = Some 1, last_reassigned = None, reassignment_reason = None\<rparr>,
      \<lparr>task_id = ''T2'', task_title = Some ''Upgrade nodes'', task_status = Some ''todo'',
       task_priority = Some ''critical'', required_skills = [''infra''],
       assigned_to_id = Some 7, last_reassigned = None, reassignment_reason = None\<rparr>,
      \<lparr>task_id = ''T3'', task_title = Some ''Write notes'', task_status = Some ''done'',
       task_priority = Some ''low'', required_skills = [],
       assigned_to_id = Some 2, last_reassigned = None, reassignment_reason = None\<rparr>,
      \<lparr>task_id = ''T4'', task_title = Some ''Refund flow'', task_status = Some ''todo'',
       task_priority = None, required_skills = [''payments''],
       assigned_to_id = Some 2, last_reassigned = None, reassignment_reason = None\<rparr>]"

definition sample_store :: store where
  "sample_store = \<lparr>db_tasks = sample_tasks, db_employees = sample_roster\<rparr>"

subsection \<open>Reference notions for utilization and reassignment\<close>

text \<open>The ids, as strings, of the employees that the availability query lists as available.\<close>

definition available_ids_of :: "NormalizedEvent list \<Rightarrow> employee list \<Rightarrow> datetime \<Rightarrow> string set" where
  "available_ids_of events employees q =
     (\<lambda>e. py_str (emp_id (entry_emp e))) ` set (available (get_available_employees events employees q))"

text \<open>
  The candidate pool of a task in the words of the specification: the members who are
  available, have free capacity, and are not the current assignee.
\<close>

definition candidate_pool :: "util_entry list \<Rightarrow> task \<Rightarrow> util_entry list" where
  "candidate_pool utilization t =
     filter (\<lambda>e. is_available e \<and> 0 < free_capacity e
                \<and> py_str (emp_id (ue_emp e)) \<noteq> assignee_str t) utilization"

text \<open>The assignee of a task is unavailable: some entry with its id is flagged so.\<close>

definition assignee_unavailable :: "util_entry list \<Rightarrow> task \<Rightarrow> bool" where
  "assignee_unavailable utilization t =
     list_ex (\<lambda>u. \<not> is_available u \<and> py_str (emp_id (ue_emp u)) = assignee_str t) utilization"

definition skill_match_of :: "task \<Rightarrow> util_entry \<Rightarrow> nat" where
  "skill_match_of t e = card (set (required_skills t) \<inter> set (emp_skills (ue_emp e)))"

text \<open>Score descending, ties broken by free capacity descending.\<close>

definition ranks_before :: "candidate \<Rightarrow> candidate \<Rightarrow> bool" where
  "ranks_before a b =
     (score b < score a
      \<or> (score a = score b \<and> free_capacity (cand_entry b) \<le> free_capacity (cand_entry a)))"

text \<open>A task after the commit: new assignee, timestamp and reason.\<close>

definition reassigned :: "task \<Rightarrow> int \<Rightarrow> string \<Rightarrow> string \<Rightarrow> task" where
  "reassigned t new_assignee_id now why =
     t\<lparr>assigned_to_id := Some new_assignee_id, last_reassigned := Some now,
       reassignment_reason := Some why\<rparr>"

text \<open>
  Members at different loads: far beyond capacity, at half load, without a declared
  capacity, with capacity zero, and at a third.
\<close>

definition load_member :: "int \<Rightarrow> int option \<Rightarrow> employee" where
  "load_member i cap =
     \<lparr>emp_id = i, emp_email = [], emp_first_name = [], emp_last_name = [], emp_skills = [],
      emp_max_tasks_per_day = cap\<rparr>"

definition load_roster :: "employee list" where
  "load_roster =
     [load_member 3 (Some 2), load_member 4 (Some 4), load_member 5 None,
      load_member 6 (Some 0), load_member 8 (Some 3)]"

definition load_task :: "int \<Rightarrow> task" where
  "load_task owner =
     \<lparr>task_id = ''L'', task_title = None, task_status = Some ''todo'', task_priority = None,
      required_skills = [], assigned_to_id = Some owner, last_reassigned = None,
      reassignment_reason = None\<rparr>"

definition load_tasks :: "task list" where
  "load_tasks =
     replicate 5 (load_task 3) @ replicate 2 (load_task 4) @
     [load_task 5, load_task 6, load_task 8]"

text \<open>
  A roster in which two members share the id 100. The second of them has a meeting on
  2026-03-02, recorded under her email; the third, the assignee of the task, is on leave.
\<close>

definition dup_member :: "int \<Rightarrow> string \<Rightarrow> employee" where
  "dup_member i email =
     \<lparr>emp_id = i, emp_email = email, emp_first_name = [], emp_last_name = [], emp_skills = [],
      emp_max_tasks_per_day = None\<rparr>"

definition dup_roster :: "employee list" where
  "dup_roster =
     [dup_member 100 ''ann@example.com'', dup_member 100 ''dup@example.com'',
      dup_member 5 ''eve@example.com'']"

definition dup_events :: "NormalizedEvent list" where
  "dup_events =
     [\<lparr>event_id = Some ''d1'', source = ''microsoft'', employee_id = [],
       employee_email = ''dup@example.com'', title = ''Review'', availability = ''busy'',
       start_utc = at_time 2026 3 2 9 0, end_utc = at_time 2026 3 2 10 0, is_all_day = False\<rparr>,
      \<lparr>event_id = Some ''d2'', source = ''google'', employee_id = ''5'', employee_email = [],
       title = ''Leave'', availability = ''oof'',
       start_utc = midnight 2026 3 2, end_utc = midnight 2026 3 3, is_all_day = True\<rparr>]"

definition dup_tasks :: "task list" where
  "dup_tasks =
     [\<lparr>task_id = ''D1'', task_title = None, task_status = Some ''todo'', task_priority = None,
       required_skills = [], assigned_to_id = Some 5, last_reassigned = None,
       reassignment_reason = None\<rparr>]"

section \<open>Properties\<close>

subsection \<open>The time parser on date-only strings\<close>

lemma digit_not_space: "digit_of c = Some v \<Longrightarrow> \<not> is_space c \<and> \<not> is_int_space c"
  by (auto simp: is_space_def is_int_space_def digit_of_def split: if_splits)

lemma digit_not_mark:
  "digit_of c = Some v \<Longrightarrow> c \<noteq> CHR ''+'' \<and> c \<noteq> CHR ''-'' \<and> c \<noteq> CHR ''_''"
  by (auto simp: digit_of_def split: if_splits)

lemma trim_id:
  assumes "s \<noteq> []" and "\<not> P (hd s)" and "\<not> P (last s)"
  shows "rev (dropWhile P (rev (dropWhile P s))) = s"
proof -
  from assms(1,2) have a: "dropWhile P s = s" by (cases s) auto
  from assms(1,3) have "\<not> P (hd (rev s))" by (simp add: hd_rev)
  with assms(1) have "dropWhile P (rev s) = rev s" by (cases "rev s") auto
  with a show ?thesis by simp
qed

lemma strip_id:
  assumes "s \<noteq> []" and "\<not> is_space (hd s)" and "\<not> is_space (last s)"
  shows "strip s = s"
  unfolding strip_def using assms by (rule trim_id)

lemma few_digits:
  assumes "length body \<le> 640"
  shows "\<not> too_many_digits n body"
proof -
  have "length (filter (\<lambda>c. c \<noteq> CHR ''_'') body) \<le> 640"
    by (rule le_trans[OF length_filter_le assms])
  then show ?thesis by (simp add: too_many_digits_def Let_def)
qed

lemma py_int_4:
  assumes "digit_of a = Some va" "digit_of b = Some vb" "digit_of c = Some vc" "digit_of d = Some vd"
  shows "py_int n [a, b, c, d] = Inr (1000 * va + 100 * vb + 10 * vc + vd)"
proof -
  have s: "rev (dropWhile is_int_space (rev (dropWhile is_int_space [a, b, c, d]))) = [a, b, c, d]"
    using assms by (intro trim_id) (auto dest: digit_not_space)
  have f: "\<not> too_many_digits n [a, b, c, d]"
    by (rule few_digits) simp
  show ?thesis
    using assms f digit_not_mark[OF assms(1)] digit_not_mark[OF assms(2)]
      digit_not_mark[OF assms(3)] digit_not_mark[OF assms(4)]
    unfolding py_int_def s by simp
qed

lemma py_int_2:
  assumes "digit_of a = Some va" "digit_of b = Some vb"
  shows "py_int n [a, b] = Inr (10 * va + vb)"
proof -
  have s: "rev (dropWhile is_int_space (rev (dropWhile is_int_space [a, b]))) = [a, b]"
    using assms by (intro trim_id) (auto dest: digit_not_space)
  have f: "\<not> too_many_digits n [a, b]"
    by (rule few_digits) simp
  show ?thesis
    using assms f digit_not_mark[OF assms(1)] digit_not_mark[OF assms(2)]
    unfolding py_int_def s by simp
qed

text \<open>
  Claim C9. A string of exactly ten characters in \<^verbatim>\<open>YYYY-MM-DD\<close> form that names
  a calendar day parses to midnight UTC of that day, whatever library and whatever
  timezone hint are supplied: the hint is never consulted on this branch.
\<close>

theorem date_only_is_midnight_utc:
  assumes "ymd_value s = Some (y, m, d)"
  shows "parse_dt_to_utc L s tz_hint = Inr (midnight y m d)"
proof -
  from assms obtain y1 y2 y3 y4 h1 m1 m2 h2 d1 d2 where
    s: "s = [y1, y2, y3, y4, h1, m1, m2, h2, d1, d2]"
    by (auto simp: ymd_value_def split: list.splits)
  from assms obtain a b c e f g h i where
    dg: "digit_of y1 = Some a" "digit_of y2 = Some b" "digit_of y3 = Some c" "digit_of y4 = Some e"
        "digit_of m1 = Some f" "digit_of m2 = Some g" "digit_of d1 = Some h" "digit_of d2 = Some i"
    unfolding s ymd_value_def by (simp split: option.splits if_splits)
  from assms have v: "valid_date y m d" and
    ymd: "y = 1000 * a + 100 * b + 10 * c + e" "m = 10 * f + g" "d = 10 * h + i"
    unfolding s ymd_value_def using dg by (simp_all split: if_splits)
  have st: "strip s = s"
    unfolding s using dg by (intro strip_id) (auto dest: digit_not_space)
  show ?thesis
    unfolding parse_dt_to_utc_def st Let_def
    using v by (simp add: s py_int_4[OF dg(1-4)] py_int_2[OF dg(5,6)] py_int_2[OF dg(7,8)] ymd mk_datetime_def)
qed

theorem date_only_is_midnight_utc_witness:
  "ymd_value ''2026-03-01'' = Some (2026, 3, 1)
   \<and> parse_dt_to_utc basic_lib ''2026-03-01'' (Some ''Pacific Standard Time'') = Inr (midnight 2026 3 1)"
proof -
  have h: "ymd_value ''2026-03-01'' = Some (2026, 3, 1)"
    by (simp add: ymd_value_def digit_of_def valid_date_def days_in_month_def)
  show ?thesis
    using h date_only_is_midnight_utc [OF h, of basic_lib "Some ''Pacific Standard Time''"] by simp
qed

text \<open>Unfolding set for evaluating the date-only branch of the parser.\<close>

lemmas parse_eval = parse_dt_to_utc_def strip_def is_space_def py_int_def is_int_space_def
  too_many_digits_def digit_of_def mk_datetime_def valid_date_def days_in_month_def is_leap_def

text \<open>A ten-character string that names no calendar day raises instead.\<close>

lemma date_only_invalid_day:
  "parse_dt_to_utc L ''2026-02-30'' tz_hint = Inl ValueError"
  by (simp add: parse_eval)

text \<open>
  The whitespace of \<^verbatim>\<open>strip\<close> and of \<^verbatim>\<open>int()\<close> differ: a date behind a no-break
  space is read, and a separator inside the day field is not.
\<close>

lemma date_only_whitespace:
  "parse_dt_to_utc L (CHR 0xA0 # ''2026-03-01'') tz_hint = Inr (midnight 2026 3 1)
   \<and> parse_dt_to_utc L (''2026-03-'' @ [CHR 0x1C, CHR ''1'']) tz_hint = Inl ValueError
   \<and> parse_dt_to_utc L (''2026-03-'' @ [CHR 0xA0, CHR ''1'']) tz_hint = Inr (midnight 2026 3 1)"
  by (simp add: parse_eval)

subsection \<open>The normalizers\<close>

lemma normalize_loop_eq: "normalize_loop f items acc = acc @ List.map_filter f items"
  by (induction items arbitrary: acc) (auto split: option.splits)

lemma parse_times_None: "parse_times L s e h = None \<longleftrightarrow> unusable L s e h"
  by (auto simp: parse_times_def unusable_def split: sum.splits if_splits)

lemma map_filter_drop:
  assumes "\<And>x. P x \<longleftrightarrow> f x \<noteq> None"
  shows "List.map_filter f (filter P xs) = List.map_filter f xs"
  by (induction xs) (auto simp: assms split: option.splits)

lemma map_filter_all2:
  assumes "\<And>x e. x \<in> set xs \<Longrightarrow> f x = Some e \<Longrightarrow> R x e"
    and "\<And>x. x \<in> set xs \<Longrightarrow> P x \<longleftrightarrow> f x \<noteq> None"
  shows "list_all2 R (filter P xs) (List.map_filter f xs)"
  using assms by (induction xs) (auto split: option.splits)

lemma google_event_None: "google_event L ev = None \<longleftrightarrow> g_unusable L ev"
  by (auto simp: google_event_def g_unusable_def parse_times_None[symmetric] Let_def split: option.splits)

lemma microsoft_event_None: "microsoft_event L ev = None \<longleftrightarrow> m_unusable L ev"
  by (auto simp: microsoft_event_def m_unusable_def parse_times_None[symmetric] Let_def split: option.splits)

lemma c_start_str_empty: "c_start_str row = [] \<longleftrightarrow> \<not> truthy (row_get row ''start'' [])"
  by (simp add: c_start_str_def truthy_def get_str_def split: option.splits)

lemma c_end_str_empty: "c_end_str row = [] \<longleftrightarrow> \<not> truthy (row_get row ''end'' [])"
  by (simp add: c_end_str_def truthy_def get_str_def split: option.splits)

lemma csv_event_raises: "summary_missing row \<Longrightarrow> csv_event L row = Inl AttributeError"
  by (simp add: csv_event_def summary_missing_def c_start_str_empty Let_def)

lemma csv_event_returns:
  assumes "\<not> summary_missing row"
  shows "\<exists>r. csv_event L row = Inr r \<and> (r = None \<longleftrightarrow> c_unusable L row)"
proof (cases "c_start_str row = []")
  case True
  then show ?thesis
    by (simp add: csv_event_def c_unusable_def unusable_def c_start_str_empty Let_def)
next
  case False
  with assms obtain summary where s: "row_get row ''summary'' [] = Some summary"
    by (auto simp: summary_missing_def)
  from False have t: "truthy (row_get row ''start'' [])"
    by (simp add: c_start_str_empty)
  show ?thesis
    using parse_times_None[of L "c_start_str row" "c_end_str row" None]
    by (auto simp: csv_event_def c_unusable_def s t Let_def c_start_str_def c_end_str_def
        split: option.splits)
qed

lemma csv_event_isl: "isl (csv_event L row) \<longleftrightarrow> summary_missing row"
  using csv_event_raises[of row L] csv_event_returns[of row L] by (cases "summary_missing row") auto

lemma csv_loop_eq:
  "csv_loop L rows acc =
     (if list_ex summary_missing rows then Inl AttributeError
      else Inr (acc @ List.map_filter (\<lambda>row. projr (csv_event L row)) rows))"
proof (induction rows arbitrary: acc)
  case Nil
  then show ?case by (simp add: map_filter_simps)
next
  case (Cons row rows)
  show ?case
  proof (cases "summary_missing row")
    case True
    then show ?thesis by (simp add: csv_event_raises)
  next
    case False
    then obtain r where r: "csv_event L row = Inr r"
      using csv_event_returns by blast
    show ?thesis
      using False by (cases r) (simp_all add: r Cons.IH map_filter_simps)
  qed
qed

text \<open>
  The CSV normalizer raises exactly when some row has a start and no summary cell;
  otherwise it returns what its rows yield, in order.
\<close>

lemma normalize_google_csv_eq:
  "normalize_google_csv L records employee_db =
     (if list_ex summary_missing (DictReader records) then Inl AttributeError
      else Inr (List.map_filter (\<lambda>row. projr (csv_event L row)) (DictReader records)))"
  by (simp add: normalize_google_csv_def csv_loop_eq Let_def)

lemma dt_le_iff: "dt_le a b \<longleftrightarrow> \<not> dt_less b a"
  by (simp add: dt_le_def dt_less_def not_less)

lemma parse_times_Some:
  assumes "parse_times L s e h = Some (a, b)"
  shows "parse_dt_to_utc L s h = Inr a"
    and "if e = [] then b = a else parse_dt_to_utc L e h = Inr b"
    and "dt_le a b \<longleftrightarrow> \<not> reversed L s e h"
proof -
  have irrefl: "\<And>x. \<not> dt_less x x" by (simp add: dt_less_def)
  from assms show "parse_dt_to_utc L s h = Inr a"
    by (auto simp: parse_times_def split: sum.splits if_splits)
  from assms show "if e = [] then b = a else parse_dt_to_utc L e h = Inr b"
    by (auto simp: parse_times_def split: sum.splits if_splits)
  from assms show "dt_le a b \<longleftrightarrow> \<not> reversed L s e h"
    by (auto simp: parse_times_def reversed_def dt_le_iff irrefl split: sum.splits if_splits)
qed

lemma google_event_times:
  assumes "google_event L ev = Some e"
  shows "times_from_source L (g_start_str ev) (g_end_str ev) (g_tz_hint ev) e"
    and "dt_le (start_utc e) (end_utc e) \<longleftrightarrow> \<not> reversed L (g_start_str ev) (g_end_str ev) (g_tz_hint ev)"
proof -
  from assms obtain a b where
    p: "parse_times L (g_start_str ev) (g_end_str ev) (g_tz_hint ev) = Some (a, b)"
    and e: "start_utc e = a" "end_utc e = b"
    by (auto simp: google_event_def Let_def split: option.splits)
  from parse_times_Some(1,2)[OF p] e
  show "times_from_source L (g_start_str ev) (g_end_str ev) (g_tz_hint ev) e"
    by (simp add: times_from_source_def split: if_splits)
  from parse_times_Some(3)[OF p] e
  show "dt_le (start_utc e) (end_utc e) \<longleftrightarrow> \<not> reversed L (g_start_str ev) (g_end_str ev) (g_tz_hint ev)"
    by simp
qed

lemma microsoft_event_times:
  assumes "microsoft_event L ev = Some e"
  shows "times_from_source L (m_start_str ev) (m_end_str ev) (m_tz_hint ev) e"
    and "dt_le (start_utc e) (end_utc e) \<longleftrightarrow> \<not> reversed L (m_start_str ev) (m_end_str ev) (m_tz_hint ev)"
proof -
  from assms obtain a b where
    p: "parse_times L (m_start_str ev) (m_end_str ev) (m_tz_hint ev) = Some (a, b)"
    and e: "start_utc e = a" "end_utc e = b"
    by (auto simp: microsoft_event_def Let_def split: option.splits)
  from parse_times_Some(1,2)[OF p] e
  show "times_from_source L (m_start_str ev) (m_end_str ev) (m_tz_hint ev) e"
    by (simp add: times_from_source_def split: if_splits)
  from parse_times_Some(3)[OF p] e
  show "dt_le (start_utc e) (end_utc e) \<longleftrightarrow> \<not> reversed L (m_start_str ev) (m_end_str ev) (m_tz_hint ev)"
    by simp
qed

lemma csv_event_times:
  assumes "csv_event L row = Inr (Some e)"
  shows "times_from_source L (c_start_str row) (c_end_str row) None e"
    and "dt_le (start_utc e) (end_utc e) \<longleftrightarrow> \<not> reversed L (c_start_str row) (c_end_str row) None"
proof -
  from assms obtain a b where
    p: "parse_times L (c_start_str row) (c_end_str row) None = Some (a, b)"
    and e: "start_utc e = a" "end_utc e = b"
    by (auto simp: csv_event_def Let_def c_start_str_def c_end_str_def split: option.splits if_splits)
  from parse_times_Some(1,2)[OF p] e
  show "times_from_source L (c_start_str row) (c_end_str row) None e"
    by (simp add: times_from_source_def split: if_splits)
  from parse_times_Some(3)[OF p] e
  show "dt_le (start_utc e) (end_utc e) \<longleftrightarrow> \<not> reversed L (c_start_str row) (c_end_str row) None"
    by simp
qed

lemma normalize_google_json_eq:
  "normalize_google_json L gdata = List.map_filter (google_event L) (items_of gdata)"
  by (simp add: normalize_google_json_def normalize_loop_eq items_of_def)

lemma normalize_microsoft_json_eq:
  "normalize_microsoft_json L mdata = List.map_filter (microsoft_event L) (items_of mdata)"
  by (simp add: normalize_microsoft_json_def normalize_loop_eq items_of_def)

lemma csv_event_projr:
  assumes "\<not> summary_missing row"
  shows "projr (csv_event L row) = Some e \<longleftrightarrow> csv_event L row = Inr (Some e)"
    and "\<not> c_unusable L row \<longleftrightarrow> projr (csv_event L row) \<noteq> None"
  using csv_event_returns[OF assms, of L] by auto

text \<open>
  Claim C1, as the code has it. No normalizer compares the two instants. The events of
  the result are, one for one and in order, the usable events of the source: the start of
  each is the parsed start of its source event and its end is the parsed end, or the start
  itself when the source end is missing. So \<open>start_utc \<le> end_utc\<close> holds for an
  event exactly when its source event is not reversed, and a reversed source event is kept
  with its end before its start. For the CSV normalizer this describes the list it
  returns.
\<close>

theorem normalized_times_are_parsed_times:
  "list_all2
     (\<lambda>ev e. times_from_source L (g_start_str ev) (g_end_str ev) (g_tz_hint ev) e
        \<and> (dt_le (start_utc e) (end_utc e)
             \<longleftrightarrow> \<not> reversed L (g_start_str ev) (g_end_str ev) (g_tz_hint ev)))
     (filter (\<lambda>ev. \<not> g_unusable L ev) (items_of gdata))
     (normalize_google_json L gdata)
   \<and> (\<forall>evs. normalize_google_csv L records employee_db = Inr evs \<longrightarrow>
        list_all2
          (\<lambda>row e. times_from_source L (c_start_str row) (c_end_str row) None e
             \<and> (dt_le (start_utc e) (end_utc e)
                  \<longleftrightarrow> \<not> reversed L (c_start_str row) (c_end_str row) None))
          (filter (\<lambda>row. \<not> c_unusable L row) (DictReader records))
          evs)
   \<and> list_all2
       (\<lambda>ev e. times_from_source L (m_start_str ev) (m_end_str ev) (m_tz_hint ev) e
          \<and> (dt_le (start_utc e) (end_utc e)
               \<longleftrightarrow> \<not> reversed L (m_start_str ev) (m_end_str ev) (m_tz_hint ev)))
       (filter (\<lambda>ev. \<not> m_unusable L ev) (items_of mdata))
       (normalize_microsoft_json L mdata)"
proof (intro conjI allI impI)
  show "list_all2
     (\<lambda>ev e. times_from_source L (g_start_str ev) (g_end_str ev) (g_tz_hint ev) e
        \<and> (dt_le (start_utc e) (end_utc e)
             \<longleftrightarrow> \<not> reversed L (g_start_str ev) (g_end_str ev) (g_tz_hint ev)))
     (filter (\<lambda>ev. \<not> g_unusable L ev) (items_of gdata))
     (normalize_google_json L gdata)"
    unfolding normalize_google_json_eq
  proof (rule map_filter_all2)
    fix x e assume "google_event L x = Some e"
    then show "times_from_source L (g_start_str x) (g_end_str x) (g_tz_hint x) e
        \<and> (dt_le (start_utc e) (end_utc e)
             \<longleftrightarrow> \<not> reversed L (g_start_str x) (g_end_str x) (g_tz_hint x))"
      using google_event_times[of L x e] by (intro conjI)
  next
    fix x show "(\<not> g_unusable L x) = (google_event L x \<noteq> None)"
      by (simp add: google_event_None)
  qed
next
  fix evs assume "normalize_google_csv L records employee_db = Inr evs"
  then have ok: "\<not> list_ex summary_missing (DictReader records)"
    and evs: "evs = List.map_filter (\<lambda>row. projr (csv_event L row)) (DictReader records)"
    by (auto simp: normalize_google_csv_eq split: if_splits)
  show "list_all2
          (\<lambda>row e. times_from_source L (c_start_str row) (c_end_str row) None e
             \<and> (dt_le (start_utc e) (end_utc e)
                  \<longleftrightarrow> \<not> reversed L (c_start_str row) (c_end_str row) None))
          (filter (\<lambda>row. \<not> c_unusable L row) (DictReader records))
          evs"
    unfolding evs
  proof (rule map_filter_all2)
    fix x e assume x: "x \<in> set (DictReader records)" and p: "projr (csv_event L x) = Some e"
    from x ok have "\<not> summary_missing x" by (auto simp: list_ex_iff)
    with p have "csv_event L x = Inr (Some e)" by (simp add: csv_event_projr)
    then show "times_from_source L (c_start_str x) (c_end_str x) None e
             \<and> (dt_le (start_utc e) (end_utc e)
                  \<longleftrightarrow> \<not> reversed L (c_start_str x) (c_end_str x) None)"
      using csv_event_times[of L x e] by (intro conjI)
  next
    fix x assume x: "x \<in> set (DictReader records)"
    from x ok have "\<not> summary_missing x" by (auto simp: list_ex_iff)
    then show "(\<not> c_unusable L x) = (projr (csv_event L x) \<noteq> None)"
      by (rule csv_event_projr(2))
  qed
next
  show "list_all2
       (\<lambda>ev e. times_from_source L (m_start_str ev) (m_end_str ev) (m_tz_hint ev) e
          \<and> (dt_le (start_utc e) (end_utc e)
               \<longleftrightarrow> \<not> reversed L (m_start_str ev) (m_end_str ev) (m_tz_hint ev)))
       (filter (\<lambda>ev. \<not> m_unusable L ev) (items_of mdata))
       (normalize_microsoft_json L mdata)"
    unfolding normalize_microsoft_json_eq
  proof (rule map_filter_all2)
    fix x e assume "microsoft_event L x = Some e"
    then show "times_from_source L (m_start_str x) (m_end_str x) (m_tz_hint x) e
          \<and> (dt_le (start_utc e) (end_utc e)
               \<longleftrightarrow> \<not> reversed L (m_start_str x) (m_end_str x) (m_tz_hint x))"
      using microsoft_event_times[of L x e] by (intro conjI)
  next
    fix x show "(\<not> m_unusable L x) = (microsoft_event L x \<noteq> None)"
      by (simp add: microsoft_event_None)
  qed
qed

lemma list_all2_conj_map:
  assumes "list_all2 (\<lambda>x y. A x y \<and> (f y \<longleftrightarrow> g x)) xs ys"
  shows "map f ys = map g xs"
  using assms by (induction xs ys rule: list_all2_induct) auto

lemmas google_eval = normalize_google_json_def google_event_def parse_times_def g_start_str_def
  g_end_str_def g_tz_hint_def g_obj_def g_time_str_def get_str_def py_or_def

theorem normalized_times_are_parsed_times_witness:
  "map (\<lambda>e. dt_le (start_utc e) (end_utc e)) (normalize_google_json basic_lib (Some sample_items))
     = [False, True, True]
   \<and> (\<exists>evs. normalize_google_csv basic_lib sample_csv None = Inr evs
        \<and> map (\<lambda>e. dt_le (start_utc e) (end_utc e)) evs = [True, False, True])
   \<and> map (\<lambda>e. dt_le (start_utc e) (end_utc e))
        (normalize_microsoft_json basic_lib (Some sample_ms_events)) = [True]"
proof -
  note t = normalized_times_are_parsed_times
    [of basic_lib "Some sample_items" sample_csv None "Some sample_ms_events"]
  have g: "map (\<lambda>ev. \<not> reversed basic_lib (g_start_str ev) (g_end_str ev) (g_tz_hint ev))
      (filter (\<lambda>ev. \<not> g_unusable basic_lib ev) (items_of (Some sample_items))) = [False, True, True]"
    by code_simp
  have c: "map (\<lambda>row. \<not> reversed basic_lib (c_start_str row) (c_end_str row) None)
      (filter (\<lambda>row. \<not> c_unusable basic_lib row) (DictReader sample_csv)) = [True, False, True]"
    by code_simp
  have m: "map (\<lambda>ev. \<not> reversed basic_lib (m_start_str ev) (m_end_str ev) (m_tz_hint ev))
      (filter (\<lambda>ev. \<not> m_unusable basic_lib ev) (items_of (Some sample_ms_events))) = [True]"
    by code_simp
  have r: "\<not> isl (normalize_google_csv basic_lib sample_csv None)"
    by code_simp
  then obtain evs where evs: "normalize_google_csv basic_lib sample_csv None = Inr evs"
    by (cases "normalize_google_csv basic_lib sample_csv None") auto
  from t have g': "map (\<lambda>e. dt_le (start_utc e) (end_utc e))
      (normalize_google_json basic_lib (Some sample_items)) = [False, True, True]"
    unfolding g[symmetric] by (intro list_all2_conj_map) (rule conjunct1)
  from t evs have "list_all2
          (\<lambda>row e. times_from_source basic_lib (c_start_str row) (c_end_str row) None e
             \<and> (dt_le (start_utc e) (end_utc e)
                  \<longleftrightarrow> \<not> reversed basic_lib (c_start_str row) (c_end_str row) None))
          (filter (\<lambda>row. \<not> c_unusable basic_lib row) (DictReader sample_csv)) evs"
    by blast
  then have c': "map (\<lambda>e. dt_le (start_utc e) (end_utc e)) evs = [True, False, True]"
    unfolding c[symmetric] by (rule list_all2_conj_map)
  from t have m': "map (\<lambda>e. dt_le (start_utc e) (end_utc e))
      (normalize_microsoft_json basic_lib (Some sample_ms_events)) = [True]"
    unfolding m[symmetric] by (intro list_all2_conj_map) (rule conjunct2, rule conjunct2)
  show ?thesis by (intro conjI exI[of _ evs]) (rule g' evs c' m')+
qed

text \<open>
  Claim C1 as stated fails: an all-day Google event from 2026-03-02 to 2026-03-01 is kept,
  with its end before its start.
\<close>

theorem reversed_event_is_kept:
  "map start_utc (normalize_google_json basic_lib (Some [reversed_event])) = [midnight 2026 3 2]
   \<and> map end_utc (normalize_google_json basic_lib (Some [reversed_event])) = [midnight 2026 3 1]
   \<and> dt_less (midnight 2026 3 1) (midnight 2026 3 2)"
  by (simp add: google_eval parse_eval reversed_event_def dt_less_def dt_key_def midnight_def)

text \<open>The same holds for every library, since date-only strings never reach it.\<close>

lemma reversed_event_any_library:
  "map start_utc (normalize_google_json L (Some [reversed_event])) = [midnight 2026 3 2]
   \<and> map end_utc (normalize_google_json L (Some [reversed_event])) = [midnight 2026 3 1]"
  by (simp add: google_eval parse_eval reversed_event_def)

lemma map_filter_ids:
  assumes "\<And>x e. x \<in> set xs \<Longrightarrow> f x = Some e \<Longrightarrow> event_id e = g x"
    and "\<And>x. x \<in> set xs \<Longrightarrow> P x \<longleftrightarrow> f x \<noteq> None"
  shows "map event_id (List.map_filter f xs) = map g (filter P xs)"
  using assms by (induction xs) (auto simp: map_filter_simps split: option.splits)

lemma google_event_id: "google_event L ev = Some e \<Longrightarrow> event_id e = Some (get_str (g_id ev) [])"
  by (auto simp: google_event_def Let_def split: option.splits)

lemma microsoft_event_id: "microsoft_event L ev = Some e \<Longrightarrow> event_id e = Some (get_str (m_id ev) [])"
  by (auto simp: microsoft_event_def Let_def split: option.splits)

lemma csv_event_id: "csv_event L row = Inr (Some e) \<Longrightarrow> event_id e = row_get row ''id'' []"
  by (auto simp: csv_event_def Let_def split: option.splits if_splits)

text \<open>
  The two JSON normalizers have no path on which they raise: they return a list in
  every case, removing the unusable events from the payload does not change it, and it
  holds exactly the remaining events, in order.
\<close>

lemma json_unusable_events_are_skipped:
  "normalize_google_json L gdata
     = normalize_google_json L (Some (filter (\<lambda>ev. \<not> g_unusable L ev) (items_of gdata)))
   \<and> map event_id (normalize_google_json L gdata)
     = map (\<lambda>ev. Some (get_str (g_id ev) [])) (filter (\<lambda>ev. \<not> g_unusable L ev) (items_of gdata))
   \<and> normalize_microsoft_json L mdata
     = normalize_microsoft_json L (Some (filter (\<lambda>ev. \<not> m_unusable L ev) (items_of mdata)))
   \<and> map event_id (normalize_microsoft_json L mdata)
     = map (\<lambda>ev. Some (get_str (m_id ev) [])) (filter (\<lambda>ev. \<not> m_unusable L ev) (items_of mdata))"
proof -
  have g: "\<And>ev. \<not> g_unusable L ev \<longleftrightarrow> google_event L ev \<noteq> None"
    by (simp add: google_event_None)
  have m: "\<And>ev. \<not> m_unusable L ev \<longleftrightarrow> microsoft_event L ev \<noteq> None"
    by (simp add: microsoft_event_None)
  have 1: "normalize_google_json L gdata
     = normalize_google_json L (Some (filter (\<lambda>ev. \<not> g_unusable L ev) (items_of gdata)))"
    unfolding normalize_google_json_eq
    using map_filter_drop[of "\<lambda>ev. \<not> g_unusable L ev" "google_event L", OF g]
    by (simp add: items_of_def)
  have 2: "map event_id (normalize_google_json L gdata)
     = map (\<lambda>ev. Some (get_str (g_id ev) [])) (filter (\<lambda>ev. \<not> g_unusable L ev) (items_of gdata))"
    unfolding normalize_google_json_eq
    by (rule map_filter_ids) (simp_all add: google_event_id g)
  have 3: "normalize_microsoft_json L mdata
     = normalize_microsoft_json L (Some (filter (\<lambda>ev. \<not> m_unusable L ev) (items_of mdata)))"
    unfolding normalize_microsoft_json_eq
    using map_filter_drop[of "\<lambda>ev. \<not> m_unusable L ev" "microsoft_event L", OF m]
    by (simp add: items_of_def)
  have 4: "map event_id (normalize_microsoft_json L mdata)
     = map (\<lambda>ev. Some (get_str (m_id ev) [])) (filter (\<lambda>ev. \<not> m_unusable L ev) (items_of mdata))"
    unfolding normalize_microsoft_json_eq
    by (rule map_filter_ids) (simp_all add: microsoft_event_id m)
  from 1 2 3 4 show ?thesis by (intro conjI)
qed

text \<open>
  The CSV normalizer does the same on a file in which every row with a start has a
  summary cell.
\<close>

lemma csv_unusable_rows_are_skipped:
  assumes "\<not> list_ex summary_missing (DictReader records)"
  shows "\<exists>evs. normalize_google_csv L records employee_db = Inr evs
     \<and> map event_id evs
       = map (\<lambda>row. row_get row ''id'' []) (filter (\<lambda>row. \<not> c_unusable L row) (DictReader records))"
proof -
  have "map event_id (List.map_filter (\<lambda>row. projr (csv_event L row)) (DictReader records))
       = map (\<lambda>row. row_get row ''id'' []) (filter (\<lambda>row. \<not> c_unusable L row) (DictReader records))"
  proof (rule map_filter_ids)
    fix x e assume x: "x \<in> set (DictReader records)" and p: "projr (csv_event L x) = Some e"
    from x assms have "\<not> summary_missing x" by (auto simp: list_ex_iff)
    with p have "csv_event L x = Inr (Some e)" by (simp add: csv_event_projr)
    then show "event_id e = row_get x ''id'' []" by (rule csv_event_id)
  next
    fix x assume x: "x \<in> set (DictReader records)"
    from x assms have "\<not> summary_missing x" by (auto simp: list_ex_iff)
    then show "(\<not> c_unusable L x) = (projr (csv_event L x) \<noteq> None)"
      by (rule csv_event_projr(2))
  qed
  with assms show ?thesis by (simp add: normalize_google_csv_eq)
qed

text \<open>The rows of the export sample: three events, the short row among them.\<close>

lemma sample_csv_events:
  "\<exists>evs. normalize_google_csv basic_lib sample_csv None = Inr evs
     \<and> map event_id evs = [Some ''c1'', Some ''c4'', Some ''c5'']"
proof -
  have a: "\<not> list_ex summary_missing (DictReader sample_csv)" by code_simp
  have b: "map (\<lambda>row. row_get row ''id'' [])
      (filter (\<lambda>row. \<not> c_unusable basic_lib row) (DictReader sample_csv))
      = [Some ''c1'', Some ''c4'', Some ''c5'']" by code_simp
  from csv_unusable_rows_are_skipped[OF a, of basic_lib None] b show ?thesis by simp
qed

text \<open>
  Claim C8 on the CSV path. The file \<open>short_csv\<close> has one record, cut short after its
  start. The start names no calendar day, so the parser raises on it in every library and
  the row is unusable; yet the normalizer does not skip it: the test for out-of-office
  keywords runs before the \<^verbatim>\<open>try\<close> block, on a summary that is \<^verbatim>\<open>None\<close>, and
  the call ends in AttributeError.
\<close>

theorem short_row_raises:
  "parse_dt_to_utc L ''2026-13-45'' None = Inl ValueError
   \<and> list_all (c_unusable L) (DictReader short_csv)
   \<and> normalize_google_csv L short_csv employee_db = Inl AttributeError"
proof -
  have p: "parse_dt_to_utc L ''2026-13-45'' None = Inl ValueError"
    by (simp add: parse_eval)
  have u: "list_all (c_unusable L) (DictReader short_csv)"
    by (simp add: DictReader_def short_csv_def dict_row_def c_unusable_def unusable_def
        c_start_str_def c_end_str_def row_get_def get_str_def p)
  have m: "list_ex summary_missing (DictReader short_csv)"
    by (simp add: DictReader_def short_csv_def dict_row_def summary_missing_def
        c_start_str_def row_get_def get_str_def)
  from p u m show ?thesis by (simp add: normalize_google_csv_eq)
qed

text \<open>
  The same event in a Google JSON payload, without a summary, is skipped.
\<close>

lemma json_sibling_skips:
  "normalize_google_json L
     (Some [\<lparr>g_id = Some ''c9'', g_summary = None, g_creator_email = None,
             g_priv_employeeId = None, g_priv_employeeEmail = None,
             g_priv_availabilityKind = None,
             g_start = Some \<lparr>g_dateTime = None, g_date = Some ''2026-13-45'', g_timeZone = None\<rparr>,
             g_end = None\<rparr>]) = []"
  by (simp add: google_eval parse_eval)

subsection \<open>The availability query\<close>

lemma events_loop_eq:
  "events_loop events t acc = acc @ filter (\<lambda>ev. overlaps_date ev t) events"
  by (induction events arbitrary: acc) (auto simp: overlaps_date_def Let_def)

lemma busy_loop_step:
  "busy_loop (ev # events) t (ids, emails) =
     busy_loop events t
       (if blocks ev t
        then (if employee_id ev \<noteq> [] then insert (employee_id ev) ids else ids,
              if employee_email ev \<noteq> [] then insert (employee_email ev) emails else emails)
        else (ids, emails))"
  unfolding busy_loop.simps blocks_def overlaps_date_def Let_def
  by (cases "availability ev = ''busy''"; cases "availability ev = ''oof''"; cases "is_all_day ev"; simp only: if_True if_False simp_thms; simp only: if_distrib[of "busy_loop events t"] cong: if_cong)

lemma busy_loop_eq:
  "busy_loop events t (ids, emails) =
     (ids \<union> employee_id ` set (filter (\<lambda>ev. blocks ev t \<and> employee_id ev \<noteq> []) events),
      emails \<union> employee_email ` set (filter (\<lambda>ev. blocks ev t \<and> employee_email ev \<noteq> []) events))"
proof (induction events arbitrary: ids emails)
  case Nil
  show ?case by simp
next
  case (Cons ev events)
  show ?case
    unfolding busy_loop_step
    by (cases "blocks ev t"; cases "employee_id ev = []"; cases "employee_email ev = []")
       (simp_all add: Cons.IH del: busy_loop.simps)
qed

lemma roster_loop_eq:
  assumes "\<And>emp. (py_str (emp_id emp) \<in> ids \<or> emp_email emp \<in> emails) \<longleftrightarrow> P emp"
  shows "roster_loop emps ids emails (av, unav) =
     (av @ map mk_entry (filter (\<lambda>emp. \<not> P emp) emps), unav @ map mk_entry (filter P emps))"
  by (induction emps arbitrary: av unav) (auto simp: mk_entry_def Let_def assms)

lemma busy_iff_blocked:
  "(py_str (emp_id emp) \<in> employee_id ` set (filter (\<lambda>ev. blocks ev t \<and> employee_id ev \<noteq> []) events)
    \<or> emp_email emp \<in> employee_email ` set (filter (\<lambda>ev. blocks ev t \<and> employee_email ev \<noteq> []) events))
   \<longleftrightarrow> is_blocked events t emp"
  (is "?A \<or> ?B \<longleftrightarrow> ?R")
proof
  assume "?A \<or> ?B"
  then show ?R
  proof
    assume ?A
    then obtain ev where "ev \<in> set (filter (\<lambda>ev. blocks ev t \<and> employee_id ev \<noteq> []) events)"
      "py_str (emp_id emp) = employee_id ev"
      by (rule imageE)
    then have "ev \<in> set events \<and> blocks ev t \<and> matches ev emp"
      by (simp add: matches_def)
    then show ?R unfolding is_blocked_def list_ex_iff by blast
  next
    assume ?B
    then obtain ev where "ev \<in> set (filter (\<lambda>ev. blocks ev t \<and> employee_email ev \<noteq> []) events)"
      "emp_email emp = employee_email ev"
      by (rule imageE)
    then have "ev \<in> set events \<and> blocks ev t \<and> matches ev emp"
      by (simp add: matches_def)
    then show ?R unfolding is_blocked_def list_ex_iff by blast
  qed
next
  assume ?R
  then obtain ev where ev: "ev \<in> set events" "blocks ev t" "matches ev emp"
    unfolding is_blocked_def list_ex_iff by blast
  from ev(3) consider "employee_id ev \<noteq> []" "employee_id ev = py_str (emp_id emp)"
    | "employee_email ev \<noteq> []" "employee_email ev = emp_email emp"
    unfolding matches_def by blast
  then show "?A \<or> ?B"
  proof cases
    case 1
    with ev have m: "ev \<in> set (filter (\<lambda>ev. blocks ev t \<and> employee_id ev \<noteq> []) events)" by simp
    have ?A using 1(2) m by (intro image_eqI[where x=ev]) simp_all
    then show ?thesis ..
  next
    case 2
    with ev have m: "ev \<in> set (filter (\<lambda>ev. blocks ev t \<and> employee_email ev \<noteq> []) events)" by simp
    have ?B using 2(2) m by (intro image_eqI[where x=ev]) simp_all
    then show ?thesis ..
  qed
qed

lemma get_available_employees_eq:
  "get_available_employees events roster q =
     \<lparr>result_date = date_of q,
      available = map mk_entry (filter (\<lambda>emp. \<not> is_blocked events (date_of q) emp) roster),
      unavailable = map mk_entry (filter (is_blocked events (date_of q)) roster),
      available_count = length (filter (\<lambda>emp. \<not> is_blocked events (date_of q) emp) roster),
      unavailable_count = length (filter (is_blocked events (date_of q)) roster)\<rparr>"
proof -
  let ?ids = "employee_id ` set (filter (\<lambda>ev. blocks ev (date_of q) \<and> employee_id ev \<noteq> []) events)"
  let ?emails = "employee_email ` set (filter (\<lambda>ev. blocks ev (date_of q) \<and> employee_email ev \<noteq> []) events)"
  have b: "busy_loop events (date_of q) ({}, {}) = (?ids, ?emails)"
    by (simp add: busy_loop_eq)
  note r = roster_loop_eq[where av="[]" and unav="[]" and emps=roster
      and P="is_blocked events (date_of q)", OF busy_iff_blocked, unfolded append_Nil]
  show ?thesis
    unfolding get_available_employees_def Let_def b prod.case r by simp
qed

text \<open>
  Claim C2. Both queries use one overlap rule: an all-day event overlaps the target date
  when start date \<open>\<le>\<close> target \<open><\<close> end date, a timed event when start date \<open>\<le>\<close>
  target \<open>\<le>\<close> end date. \<^verbatim>\<open>get_events_for_date\<close> returns exactly the events that
  overlap, and \<^verbatim>\<open>get_available_employees\<close> marks unavailable exactly the employees
  matched by a busy or out-of-office event that overlaps. The all-day event from 2026-03-01
  to 2026-03-03 overlaps the first two days and not the third; the timed event on
  2026-03-01 from 09:00 to 10:00 overlaps that day and not the next.
\<close>

theorem overlap_rule:
  "get_events_for_date events q = filter (\<lambda>ev. overlaps_date ev (date_of q)) events
   \<and> unavailable (get_available_employees events roster q)
       = map mk_entry (filter (is_blocked events (date_of q)) roster)
   \<and> available (get_available_employees events roster q)
       = map mk_entry (filter (\<lambda>emp. \<not> is_blocked events (date_of q) emp) roster)
   \<and> overlaps_date all_day_sample (2026, 3, 1) \<and> overlaps_date all_day_sample (2026, 3, 2)
   \<and> \<not> overlaps_date all_day_sample (2026, 3, 3)
   \<and> overlaps_date timed_sample (2026, 3, 1) \<and> \<not> overlaps_date timed_sample (2026, 3, 2)"
  by (simp add: get_events_for_date_def events_loop_eq get_available_employees_eq
      overlaps_date_def all_day_sample_def timed_sample_def date_of_def midnight_def at_time_def)

theorem overlap_rule_witness:
  "map event_id (get_events_for_date [all_day_sample, timed_sample] (midnight 2026 3 1)) = [Some ''a1'', Some ''t1'']
   \<and> map event_id (get_events_for_date [all_day_sample, timed_sample] (midnight 2026 3 2)) = [Some ''a1'']
   \<and> map event_id (get_events_for_date [all_day_sample, timed_sample] (midnight 2026 3 3)) = []
   \<and> map entry_employee_id (unavailable
        (get_available_employees [all_day_sample, timed_sample] sample_roster (midnight 2026 3 2))) = [''1'']"
proof -
  let ?evs = "[all_day_sample, timed_sample]"
  have a1: "map event_id (filter (\<lambda>ev. overlaps_date ev (date_of (midnight 2026 3 1))) ?evs) = [Some ''a1'', Some ''t1'']"
    by code_simp
  have a2: "map event_id (filter (\<lambda>ev. overlaps_date ev (date_of (midnight 2026 3 2))) ?evs) = [Some ''a1'']"
    by code_simp
  have a3: "map event_id (filter (\<lambda>ev. overlaps_date ev (date_of (midnight 2026 3 3))) ?evs) = []"
    by code_simp
  have a4: "map entry_employee_id (map mk_entry
      (filter (is_blocked ?evs (date_of (midnight 2026 3 2))) sample_roster)) = [''1'']"
    by code_simp
  note t1 = overlap_rule [of ?evs "midnight 2026 3 1" sample_roster, THEN conjunct1]
  note t2 = overlap_rule [of ?evs "midnight 2026 3 2" sample_roster, THEN conjunct1]
  note t3 = overlap_rule [of ?evs "midnight 2026 3 3" sample_roster, THEN conjunct1]
  note t4 = overlap_rule [of ?evs "midnight 2026 3 2" sample_roster, THEN conjunct2, THEN conjunct1]
  show ?thesis
    unfolding t1 t2 t3 t4 a1 a2 a3 a4 by simp
qed

lemma mset_filter_split: "mset (filter P xs) + mset (filter (\<lambda>x. \<not> P x) xs) = mset xs"
  by (induction xs) auto

lemma entry_emp_mk_entry: "map entry_emp (map mk_entry xs) = xs"
  by (induction xs) (auto simp: mk_entry_def)

text \<open>
  Claim C6. The two lists partition the roster: their lengths add up to the size of the
  roster, the employees of the two lists together are the roster as a multiset, no entry
  is in both lists, and every entry is the entry of its employee.
\<close>

theorem availability_is_partition:
  assumes "r = get_available_employees events roster q"
  shows "length (available r) + length (unavailable r) = length roster
     \<and> available_count r = length (available r) \<and> unavailable_count r = length (unavailable r)
     \<and> mset (map entry_emp (available r)) + mset (map entry_emp (unavailable r)) = mset roster
     \<and> set (available r) \<inter> set (unavailable r) = {}
     \<and> (\<forall>x \<in> set (available r) \<union> set (unavailable r). x = mk_entry (entry_emp x))"
proof -
  let ?P = "is_blocked events (date_of q)"
  have av: "available r = map mk_entry (filter (\<lambda>emp. \<not> ?P emp) roster)"
    and un: "unavailable r = map mk_entry (filter ?P roster)"
    and cnt: "available_count r = length (available r)" "unavailable_count r = length (unavailable r)"
    by (simp_all add: assms get_available_employees_eq)
  have len: "length (available r) + length (unavailable r) = length roster"
    unfolding av un length_map using sum_length_filter_compl[of ?P roster] by simp
  have ms: "mset (map entry_emp (available r)) + mset (map entry_emp (unavailable r)) = mset roster"
    unfolding av un entry_emp_mk_entry using mset_filter_split[of ?P roster] by (simp add: add.commute)
  have dj: "set (available r) \<inter> set (unavailable r) = {}"
    unfolding av un by (auto simp: mk_entry_def)
  have en: "\<forall>x \<in> set (available r) \<union> set (unavailable r). x = mk_entry (entry_emp x)"
    unfolding av un by (auto simp: mk_entry_def)
  from len cnt ms dj en show ?thesis by blast
qed

theorem availability_is_partition_witness:
  "map entry_employee_id (available (get_available_employees [all_day_sample, timed_sample] sample_roster (midnight 2026 3 1))) = [''7'']
   \<and> map entry_employee_id (unavailable (get_available_employees [all_day_sample, timed_sample] sample_roster (midnight 2026 3 1))) = [''1'', ''2'']
   \<and> length (available (get_available_employees [all_day_sample, timed_sample] sample_roster (midnight 2026 3 1)))
     + length (unavailable (get_available_employees [all_day_sample, timed_sample] sample_roster (midnight 2026 3 1)))
     = length sample_roster"
proof -
  have a: "map entry_employee_id (available (get_available_employees [all_day_sample, timed_sample] sample_roster (midnight 2026 3 1))) = [''7'']"
    "map entry_employee_id (unavailable (get_available_employees [all_day_sample, timed_sample] sample_roster (midnight 2026 3 1))) = [''1'', ''2'']"
    by code_simp+
  show ?thesis
    using a availability_is_partition [OF refl, of "[all_day_sample, timed_sample]" sample_roster "midnight 2026 3 1"]
    by blast
qed

lemma missing_end_takes_start:
  "parse_times L s [] h = Some (a, b) \<Longrightarrow> b = a"
  by (auto simp: parse_times_def split: sum.splits if_splits)

lemma is_blocked_drop:
  assumes "\<not> blocks ev t"
  shows "is_blocked (xs @ ev # ys) t emp = is_blocked (xs @ ys) t emp"
  using assms by (simp add: is_blocked_def)

text \<open>
  Claim C10. An all-day event whose end instant equals its start instant overlaps no date:
  it is never among the events of a day, and whether it is in the event list or not makes
  no difference to either query. Every normalizer produces such instants when the source
  end is missing, so an all-day event without an end blocks nobody.
\<close>

theorem degenerate_all_day_event_is_inert:
  assumes "is_all_day ev" and "end_utc ev = start_utc ev"
  shows "\<not> overlaps_date ev target_date
     \<and> ev \<notin> set (get_events_for_date (xs @ ev # ys) q)
     \<and> get_events_for_date (xs @ ev # ys) q = get_events_for_date (xs @ ys) q
     \<and> get_available_employees (xs @ ev # ys) roster q = get_available_employees (xs @ ys) roster q
     \<and> (google_event L gev = Some e \<and> g_end_str gev = [] \<longrightarrow> end_utc e = start_utc e)
     \<and> (csv_event L row = Inr (Some e) \<and> c_end_str row = [] \<longrightarrow> end_utc e = start_utc e)
     \<and> (microsoft_event L mev = Some e \<and> m_end_str mev = [] \<longrightarrow> end_utc e = start_utc e)"
proof -
  have no: "\<not> overlaps_date ev t" for t
    using assms by (auto simp: overlaps_date_def)
  then have nb: "\<not> blocks ev t" for t
    by (simp add: blocks_def)
  have a: "ev \<notin> set (get_events_for_date (xs @ ev # ys) q)"
    using no by (simp add: get_events_for_date_def events_loop_eq)
  have b: "get_events_for_date (xs @ ev # ys) q = get_events_for_date (xs @ ys) q"
    using no by (simp add: get_events_for_date_def events_loop_eq)
  have c: "get_available_employees (xs @ ev # ys) roster q = get_available_employees (xs @ ys) roster q"
    unfolding get_available_employees_eq is_blocked_drop[OF nb] by simp
  have g: "google_event L gev = Some e \<and> g_end_str gev = [] \<longrightarrow> end_utc e = start_utc e"
    by (auto simp: google_event_def Let_def split: option.splits dest: missing_end_takes_start)
  have r: "csv_event L row = Inr (Some e) \<and> c_end_str row = [] \<longrightarrow> end_utc e = start_utc e"
    using csv_event_times(1)[of L row e] by (auto simp: times_from_source_def)
  have m: "microsoft_event L mev = Some e \<and> m_end_str mev = [] \<longrightarrow> end_utc e = start_utc e"
    by (auto simp: microsoft_event_def Let_def split: option.splits dest: missing_end_takes_start)
  from no a b c g r m show ?thesis by blast
qed

theorem degenerate_all_day_event_is_inert_witness:
  "normalize_google_json basic_lib (Some [open_ended_event]) = [leave_event]
   \<and> is_all_day leave_event \<and> end_utc leave_event = start_utc leave_event
   \<and> get_events_for_date [leave_event] (midnight 2026 3 2) = []
   \<and> map entry_employee_id (available (get_available_employees [leave_event] sample_roster (midnight 2026 3 2)))
       = [''1'', ''2'', ''7'']"
proof -
  have n: "normalize_google_json basic_lib (Some [open_ended_event]) = [leave_event]"
    by code_simp
  have h: "is_all_day leave_event" "end_utc leave_event = start_utc leave_event"
    by (simp_all add: leave_event_def)
  note t = degenerate_all_day_event_is_inert [OF h, of _ "[]" "[]" "midnight 2026 3 2" sample_roster]
  have e: "get_events_for_date [] (midnight 2026 3 2) = []"
    by (simp add: get_events_for_date_def)
  have v: "map entry_employee_id (available (get_available_employees [] sample_roster (midnight 2026 3 2)))
       = [''1'', ''2'', ''7'']"
    by code_simp
  from t e have e': "get_events_for_date [leave_event] (midnight 2026 3 2) = []" by simp
  from t v have v': "map entry_employee_id (available (get_available_employees [leave_event] sample_roster (midnight 2026 3 2)))
       = [''1'', ''2'', ''7'']" by simp
  from n h e' v' show ?thesis by blast
qed

subsection \<open>Utilization\<close>

lemma py_round_nonneg: "0 \<le> x \<Longrightarrow> 0 \<le> py_round x"
  by (auto simp: py_round_def Let_def)

lemma pow2_pos: "0 < pow2 e"
  by (simp add: pow2_def)

lemma to_double_nonneg: "0 \<le> x \<Longrightarrow> 0 \<le> to_double x"
proof -
  assume x: "0 \<le> x"
  show ?thesis
  proof (cases "x = 0")
    case True
    then show ?thesis by (simp add: to_double_def)
  next
    case False
    let ?e = "max (binary_exponent \<bar>x\<bar> - 52) (- 1074)"
    have "0 \<le> \<bar>x\<bar> / pow2 ?e" using pow2_pos[of ?e] by simp
    then have "0 \<le> py_round (\<bar>x\<bar> / pow2 ?e)" by (rule py_round_nonneg)
    then have "0 \<le> (of_int (py_round (\<bar>x\<bar> / pow2 ?e)) :: rat) * pow2 ?e"
      using pow2_pos[of ?e] by simp
    with x False show ?thesis by (simp add: to_double_def Let_def)
  qed
qed

lemma pct_nonneg: "0 \<le> a \<Longrightarrow> 0 < b \<Longrightarrow> 0 \<le> py_round (fmul (truediv a b) 100)"
  by (intro py_round_nonneg) (simp add: fmul_def truediv_def to_double_nonneg)

lemma utilization_entry_fields:
  "ue_emp (utilization_entry A D tasks emp) = emp"
  "is_available (utilization_entry A D tasks emp) = (py_str (emp_id emp) \<in> A)"
  "active_task_count (utilization_entry A D tasks emp)
     = length (filter (\<lambda>t. assignee_str t = py_str (emp_id emp) \<and> is_active t) tasks)"
  "utilization_pct (utilization_entry A D tasks emp)
     = min 100 (py_round (fmul (truediv (int (active_task_count (utilization_entry A D tasks emp)))
                                 (max (case emp_max_tasks_per_day emp of None \<Rightarrow> 4 | Some n \<Rightarrow> n) 1)) 100))"
  "free_capacity (utilization_entry A D tasks emp)
     = max 0 ((case emp_max_tasks_per_day emp of None \<Rightarrow> 4 | Some n \<Rightarrow> n) - int (active_task_count (utilization_entry A D tasks emp)))"
  "calendar_event_count (utilization_entry A D tasks emp)
     = length (filter (\<lambda>e. (employee_id e = py_str (emp_id emp) \<or> employee_email e = emp_email emp)
                                      \<and> \<not> is_all_day e) D)"
  by (simp_all add: utilization_entry_def Let_def)

lemma utilization_entry_bounds:
  "0 \<le> utilization_pct (utilization_entry A D tasks emp)"
  "utilization_pct (utilization_entry A D tasks emp) \<le> 100"
  "0 \<le> free_capacity (utilization_entry A D tasks emp)"
  unfolding utilization_entry_fields(4,5) by (simp_all add: pct_nonneg)

lemma get_utilization_eq:
  "get_utilization events employees tasks q =
     sort_key load_key (map (utilization_entry (available_ids_of events employees q)
        (get_events_for_date events q) tasks) employees)"
  by (simp add: get_utilization_def Let_def available_ids_of_def)

lemma in_get_utilization:
  assumes "u \<in> set (get_utilization events employees tasks q)"
  obtains emp where "emp \<in> set employees"
    "u = utilization_entry (available_ids_of events employees q) (get_events_for_date events q) tasks emp"
proof -
  from assms have "u \<in> utilization_entry (available_ids_of events employees q)
      (get_events_for_date events q) tasks ` set employees"
    unfolding get_utilization_eq by (simp only: set_sort set_map)
  then show ?thesis by (rule imageE) (rule that)
qed

lemma ue_emp_get_utilization:
  "mset (map ue_emp (get_utilization events employees tasks q)) = mset employees"
proof -
  have "mset (map ue_emp (get_utilization events employees tasks q))
      = image_mset ue_emp (mset (map (utilization_entry (available_ids_of events employees q)
        (get_events_for_date events q) tasks) employees))"
    unfolding get_utilization_eq by (simp only: mset_map mset_sort)
  also have "\<dots> = mset (map (\<lambda>emp. ue_emp (utilization_entry (available_ids_of events employees q)
        (get_events_for_date events q) tasks emp)) employees)"
    by (simp add: multiset.map_comp comp_def)
  also have "\<dots> = mset employees"
    by (simp add: utilization_entry_fields(1))
  finally show ?thesis .
qed


text \<open>
  Claim C4. \<^verbatim>\<open>get_utilization\<close> returns one entry for each roster member. In each,
  the capacity being the member's \<^verbatim>\<open>max_tasks_per_day\<close>, or 4 when the member has
  none, and the count being the number of the member's active tasks,
  \<open>utilization_pct\<close> is \<^verbatim>\<open>min(100, round(count / max(capacity, 1) * 100))\<close>
  and lies between 0 and 100 whatever the count, and \<open>free_capacity\<close> is
  \<^verbatim>\<open>max(0, capacity - count)\<close> and is never negative.
\<close>

theorem utilization_is_clamped:
  "mset (map ue_emp (get_utilization events employees tasks q)) = mset employees
   \<and> (\<forall>u \<in> set (get_utilization events employees tasks q).
        active_task_count u
          = length (filter (\<lambda>t. assignee_str t = py_str (emp_id (ue_emp u)) \<and> is_active t) tasks)
        \<and> utilization_pct u
          = min 100 (py_round (fmul (truediv (int (active_task_count u))
               (max (case emp_max_tasks_per_day (ue_emp u) of None \<Rightarrow> 4 | Some n \<Rightarrow> n) 1)) 100))
        \<and> 0 \<le> utilization_pct u \<and> utilization_pct u \<le> 100
        \<and> free_capacity u
          = max 0 ((case emp_max_tasks_per_day (ue_emp u) of None \<Rightarrow> 4 | Some n \<Rightarrow> n)
                   - int (active_task_count u))
        \<and> 0 \<le> free_capacity u)"
proof (intro conjI ballI)
  show "mset (map ue_emp (get_utilization events employees tasks q)) = mset employees"
    by (rule ue_emp_get_utilization)
next
  fix u assume "u \<in> set (get_utilization events employees tasks q)"
  then obtain emp where u: "u = utilization_entry (available_ids_of events employees q)
      (get_events_for_date events q) tasks emp"
    by (rule in_get_utilization)
  show "active_task_count u
          = length (filter (\<lambda>t. assignee_str t = py_str (emp_id (ue_emp u)) \<and> is_active t) tasks)"
    unfolding u utilization_entry_fields(1) by (rule utilization_entry_fields(3))
  show "utilization_pct u
          = min 100 (py_round (fmul (truediv (int (active_task_count u))
               (max (case emp_max_tasks_per_day (ue_emp u) of None \<Rightarrow> 4 | Some n \<Rightarrow> n) 1)) 100))"
    unfolding u utilization_entry_fields(1) by (rule utilization_entry_fields(4))
  show "0 \<le> utilization_pct u" unfolding u by (rule utilization_entry_bounds)
  show "utilization_pct u \<le> 100" unfolding u by (rule utilization_entry_bounds)
  show "free_capacity u
          = max 0 ((case emp_max_tasks_per_day (ue_emp u) of None \<Rightarrow> 4 | Some n \<Rightarrow> n)
                   - int (active_task_count u))"
    unfolding u utilization_entry_fields(1) by (rule utilization_entry_fields(5))
  show "0 \<le> free_capacity u" unfolding u by (rule utilization_entry_bounds)
qed

theorem utilization_is_clamped_witness:
  "map (\<lambda>u. (emp_id (ue_emp u), emp_max_tasks_per_day (ue_emp u), active_task_count u,
               utilization_pct u, free_capacity u))
      (get_utilization [] load_roster load_tasks (midnight 2026 3 2))
     = [(5, None, 1, 25, 3), (8, Some 3, 1, 33, 2), (4, Some 4, 2, 50, 2),
        (3, Some 2, 5, 100, 0), (6, Some 0, 1, 100, 0)]
   \<and> list_all (\<lambda>u. 0 \<le> utilization_pct u \<and> utilization_pct u \<le> 100 \<and> 0 \<le> free_capacity u)
        (get_utilization [] load_roster load_tasks (midnight 2026 3 2))"
proof -
  have a: "map (\<lambda>u. (emp_id (ue_emp u), emp_max_tasks_per_day (ue_emp u), active_task_count u,
               utilization_pct u, free_capacity u))
      (get_utilization [] load_roster load_tasks (midnight 2026 3 2))
     = [(5, None, 1, 25, 3), (8, Some 3, 1, 33, 2), (4, Some 4, 2, 50, 2),
        (3, Some 2, 5, 100, 0), (6, Some 0, 1, 100, 0)]"
    by code_simp
  note t = utilization_is_clamped [of "[]" load_roster load_tasks "midnight 2026 3 2", THEN conjunct2]
  have b: "\<forall>u \<in> set (get_utilization [] load_roster load_tasks (midnight 2026 3 2)).
        0 \<le> utilization_pct u \<and> utilization_pct u \<le> 100 \<and> 0 \<le> free_capacity u"
  proof
    fix u assume "u \<in> set (get_utilization [] load_roster load_tasks (midnight 2026 3 2))"
    with t show "0 \<le> utilization_pct u \<and> utilization_pct u \<le> 100 \<and> 0 \<le> free_capacity u"
      by blast
  qed
  from a b show ?thesis unfolding list_all_iff by blast
qed

subsection \<open>Reassignment suggestions\<close>

lemma set_py_slice_to: "set (py_slice_to xs n) \<subseteq> set xs"
  by (auto simp: py_slice_to_def dest: in_set_takeD)

lemma suggest_for_task_fields:
  "sg_task (suggest_for_task U str n t) = t"
  "needs_reassignment (suggest_for_task U str n t)
     = (assignee_str t \<in> set (map (\<lambda>e. py_str (emp_id (ue_emp e))) (filter (\<lambda>e. \<not> is_available e) U)))"
  "recommendations (suggest_for_task U str n t)
     = (if needs_reassignment (suggest_for_task U str n t)
        then py_slice_to (sort_key rank_key (map (mk_candidate t) (candidate_pool U t))) n
        else [])"
  by (simp_all add: suggest_for_task_def Let_def candidate_pool_def conj_commute conj_left_commute)

lemma in_suggestions:
  assumes "s \<in> set (suggestions (suggest_reassignments events employees tasks q n))"
  obtains t where "t \<in> set tasks" "is_active t"
    "s = suggest_for_task (get_utilization events employees tasks q)
           (isoformat_date (date_of q)) n t"
proof -
  let ?f = "suggest_for_task (get_utilization events employees tasks q) (isoformat_date (date_of q)) n"
  have "suggestions (suggest_reassignments events employees tasks q n)
      = sort_key suggestion_key (map ?f (filter is_active tasks))"
    by (simp add: suggest_reassignments_def Let_def)
  with assms have "s \<in> ?f ` set (filter is_active tasks)"
    by (simp only: set_sort set_map)
  then obtain t where t: "t \<in> set (filter is_active tasks)" "s = ?f t"
    by (rule imageE)
  from t(1) have "t \<in> set tasks" "is_active t" by simp_all
  then show ?thesis using t(2) by (rule that)
qed

lemma in_recommendations:
  assumes "c \<in> set (recommendations (suggest_for_task U str n t))"
  obtains e where "e \<in> set (candidate_pool U t)" "c = mk_candidate t e"
proof -
  from assms have "c \<in> set (py_slice_to (sort_key rank_key (map (mk_candidate t) (candidate_pool U t))) n)"
    unfolding suggest_for_task_fields(3) by (simp split: if_splits)
  then have "c \<in> set (sort_key rank_key (map (mk_candidate t) (candidate_pool U t)))"
    using set_py_slice_to by (rule rev_subsetD)
  then have "c \<in> mk_candidate t ` set (candidate_pool U t)"
    by (simp only: set_sort set_map)
  then show ?thesis by (rule imageE) (rule that[rotated])
qed

lemma mk_candidate_fields:
  "cand_entry (mk_candidate t e) = e"
  "score (mk_candidate t e)
     = int (skill_match_of t e) * 15 - utilization_pct e - int (calendar_event_count e) * 3"
  "skill_match_count (mk_candidate t e) = skill_match_of t e"
  by (simp_all add: mk_candidate_def score_candidate_def skill_match_of_def Let_def)

lemma in_candidate_pool:
  "e \<in> set (candidate_pool U t) \<longleftrightarrow>
     e \<in> set U \<and> is_available e \<and> 0 < free_capacity e \<and> py_str (emp_id (ue_emp e)) \<noteq> assignee_str t"
  by (simp add: candidate_pool_def)

lemma assignee_str_neq:
  "py_str i \<noteq> assignee_str t \<Longrightarrow> Some i \<noteq> assigned_to_id t"
  by (cases "assigned_to_id t") (auto simp: assignee_str_def)

lemma available_entry:
  assumes "x \<in> set (available (get_available_employees events employees q))"
  obtains emp where "emp \<in> set employees" "\<not> is_blocked events (date_of q) emp" "x = mk_entry emp"
proof -
  from assms have "x \<in> mk_entry ` set (filter (\<lambda>emp. \<not> is_blocked events (date_of q) emp) employees)"
    unfolding get_available_employees_eq by simp
  then obtain emp where m: "emp \<in> set (filter (\<lambda>emp. \<not> is_blocked events (date_of q) emp) employees)"
    "x = mk_entry emp" by (rule imageE)
  from m(1) have "emp \<in> set employees" "\<not> is_blocked events (date_of q) emp" by simp_all
  then show ?thesis using m(2) by (rule that)
qed

lemma entry_emp_mk: "entry_emp (mk_entry emp) = emp"
  by (simp add: mk_entry_def)

lemma available_by_id:
  assumes "emp \<in> set employees"
    and "py_str (emp_id emp) \<in> available_ids_of events employees q"
    and "distinct (map (\<lambda>e. py_str (emp_id e)) employees)"
  shows "\<not> is_blocked events (date_of q) emp
    \<and> mk_entry emp \<in> set (available (get_available_employees events employees q))"
proof -
  from assms(2) obtain x where x: "x \<in> set (available (get_available_employees events employees q))"
    "py_str (emp_id emp) = py_str (emp_id (entry_emp x))"
    unfolding available_ids_of_def by (rule imageE)
  from x(1) obtain emp' where e': "emp' \<in> set employees" "\<not> is_blocked events (date_of q) emp'"
    "x = mk_entry emp'" by (rule available_entry)
  from x(2) e'(3) have "py_str (emp_id emp) = py_str (emp_id emp')"
    by (simp add: entry_emp_mk)
  moreover from assms(3) have "inj_on (\<lambda>e. py_str (emp_id e)) (set employees)"
    by (simp add: distinct_map)
  ultimately have "emp = emp'"
    using assms(1) e'(1) by (rule_tac inj_onD) 
  with e' x(1) show ?thesis by simp
qed

text \<open>
  Claim C7, as the code has it. In every suggestion, no recommended candidate is the
  current assignee of the task, each has free capacity above zero, and each is a member of
  the roster whose id is among the ids of the members available on the target date: the
  engine knows a member by its id. When the ids of the roster are distinct, the member
  itself is in the available list of the availability query, blocked by no event.
\<close>

theorem recommendations_are_eligible:
  "\<forall>s \<in> set (suggestions (suggest_reassignments events employees tasks q top_n)).
     \<forall>c \<in> set (recommendations s).
       py_str (emp_id (ue_emp (cand_entry c))) \<noteq> assignee_str (sg_task s)
       \<and> Some (emp_id (ue_emp (cand_entry c))) \<noteq> assigned_to_id (sg_task s)
       \<and> 0 < free_capacity (cand_entry c)
       \<and> is_available (cand_entry c)
       \<and> ue_emp (cand_entry c) \<in> set employees
       \<and> py_str (emp_id (ue_emp (cand_entry c))) \<in> available_ids_of events employees q
       \<and> (distinct (map (\<lambda>e. py_str (emp_id e)) employees) \<longrightarrow>
             \<not> is_blocked events (date_of q) (ue_emp (cand_entry c))
             \<and> mk_entry (ue_emp (cand_entry c))
                 \<in> set (available (get_available_employees events employees q)))"
proof (intro ballI)
  fix s c
  assume s: "s \<in> set (suggestions (suggest_reassignments events employees tasks q top_n))"
    and c: "c \<in> set (recommendations s)"
  let ?U = "get_utilization events employees tasks q"
  from s obtain t where t: "s = suggest_for_task ?U (isoformat_date (date_of q)) top_n t"
    by (rule in_suggestions)
  from c obtain e where e: "e \<in> set (candidate_pool ?U t)" "c = mk_candidate t e"
    unfolding t by (rule in_recommendations)
  from e(1) have pool: "e \<in> set ?U" "is_available e" "0 < free_capacity e"
    "py_str (emp_id (ue_emp e)) \<noteq> assignee_str t"
    by (simp_all add: in_candidate_pool)
  from pool(1) obtain emp where emp: "emp \<in> set employees"
    "e = utilization_entry (available_ids_of events employees q) (get_events_for_date events q) tasks emp"
    by (rule in_get_utilization)
  have ce: "cand_entry c = e" by (simp add: e(2) mk_candidate_fields)
  have st: "sg_task s = t" by (simp add: t suggest_for_task_fields)
  have ue: "ue_emp e = emp" by (simp add: emp(2) utilization_entry_fields)
  from pool(2) have ids: "py_str (emp_id emp) \<in> available_ids_of events employees q"
    by (simp add: emp(2) utilization_entry_fields)
  show "py_str (emp_id (ue_emp (cand_entry c))) \<noteq> assignee_str (sg_task s)
       \<and> Some (emp_id (ue_emp (cand_entry c))) \<noteq> assigned_to_id (sg_task s)
       \<and> 0 < free_capacity (cand_entry c)
       \<and> is_available (cand_entry c)
       \<and> ue_emp (cand_entry c) \<in> set employees
       \<and> py_str (emp_id (ue_emp (cand_entry c))) \<in> available_ids_of events employees q
       \<and> (distinct (map (\<lambda>e. py_str (emp_id e)) employees) \<longrightarrow>
             \<not> is_blocked events (date_of q) (ue_emp (cand_entry c))
             \<and> mk_entry (ue_emp (cand_entry c))
                 \<in> set (available (get_available_employees events employees q)))"
    unfolding ce st
    using pool(2,3,4) assignee_str_neq[OF pool(4)] emp(1) ids available_by_id[OF emp(1) ids]
    unfolding ue by blast
qed

theorem recommendations_are_eligible_witness:
  "map (\<lambda>s. (task_id (sg_task s), map (\<lambda>c. emp_id (ue_emp (cand_entry c))) (recommendations s)))
      (suggestions (suggest_reassignments sample_events sample_roster sample_tasks (midnight 2026 3 2) 3))
     = [(''T1'', [2, 7]), (''T2'', []), (''T4'', [])]
   \<and> distinct (map (\<lambda>e. py_str (emp_id e)) sample_roster)
   \<and> list_all (\<lambda>s. list_all (\<lambda>c.
          Some (emp_id (ue_emp (cand_entry c))) \<noteq> assigned_to_id (sg_task s)
          \<and> 0 < free_capacity (cand_entry c)
          \<and> mk_entry (ue_emp (cand_entry c))
               \<in> set (available (get_available_employees sample_events sample_roster (midnight 2026 3 2))))
          (recommendations s))
        (suggestions (suggest_reassignments sample_events sample_roster sample_tasks (midnight 2026 3 2) 3))"
proof -
  have a: "map (\<lambda>s. (task_id (sg_task s), map (\<lambda>c. emp_id (ue_emp (cand_entry c))) (recommendations s)))
      (suggestions (suggest_reassignments sample_events sample_roster sample_tasks (midnight 2026 3 2) 3))
     = [(''T1'', [2, 7]), (''T2'', []), (''T4'', [])]"
    by code_simp
  have d: "distinct (map (\<lambda>e. py_str (emp_id e)) sample_roster)"
    by code_simp
  note t = recommendations_are_eligible [of sample_events sample_roster sample_tasks "midnight 2026 3 2" 3]
  have b: "\<forall>s \<in> set (suggestions (suggest_reassignments sample_events sample_roster sample_tasks
                        (midnight 2026 3 2) 3)).
        \<forall>c \<in> set (recommendations s).
          Some (emp_id (ue_emp (cand_entry c))) \<noteq> assigned_to_id (sg_task s)
          \<and> 0 < free_capacity (cand_entry c)
          \<and> mk_entry (ue_emp (cand_entry c))
               \<in> set (available (get_available_employees sample_events sample_roster (midnight 2026 3 2)))"
  proof (intro ballI)
    fix s c
    assume "s \<in> set (suggestions (suggest_reassignments sample_events sample_roster sample_tasks
                        (midnight 2026 3 2) 3))" "c \<in> set (recommendations s)"
    with t d show "Some (emp_id (ue_emp (cand_entry c))) \<noteq> assigned_to_id (sg_task s)
          \<and> 0 < free_capacity (cand_entry c)
          \<and> mk_entry (ue_emp (cand_entry c))
               \<in> set (available (get_available_employees sample_events sample_roster (midnight 2026 3 2)))"
      by blast
  qed
  from a d b show ?thesis unfolding list_all_iff by blast
qed

text \<open>
  Claim C7 as stated fails on a roster with a repeated id: the member behind
  \<^verbatim>\<open>dup@example.com\<close> is blocked on 2026-03-02 and listed as unavailable, and is
  recommended all the same, since the other member with the id 100 is available.
\<close>

theorem duplicate_id_is_recommended:
  "map (emp_email \<circ> ue_emp \<circ> cand_entry)
      (concat (map recommendations
         (suggestions (suggest_reassignments dup_events dup_roster dup_tasks (midnight 2026 3 2) 3))))
     = [''ann@example.com'', ''dup@example.com'']
   \<and> map (emp_email \<circ> entry_emp)
        (unavailable (get_available_employees dup_events dup_roster (midnight 2026 3 2)))
     = [''dup@example.com'', ''eve@example.com'']
   \<and> map (emp_email \<circ> entry_emp)
        (available (get_available_employees dup_events dup_roster (midnight 2026 3 2)))
     = [''ann@example.com'']
   \<and> is_blocked dup_events (date_of (midnight 2026 3 2)) (dup_member 100 ''dup@example.com'')"
  by code_simp

lemma rank_key_le: "rank_key a \<le> rank_key b \<longleftrightarrow> ranks_before a b"
  by (auto simp: rank_key_def ranks_before_def)

lemma sorted_wrt_rank: "sorted_wrt ranks_before (sort_key rank_key xs)"
proof -
  have "sorted (map rank_key (sort_key rank_key xs))" by (rule sorted_sort_key)
  then show ?thesis by (simp add: sorted_map rank_key_le)
qed

lemma py_slice_to_nonneg: "0 \<le> n \<Longrightarrow> py_slice_to xs n = take (nat n) xs"
  by (simp add: py_slice_to_def)

lemma ranking_core:
  assumes "s \<in> set (suggestions (suggest_reassignments events employees tasks q top_n))"
    and "needs_reassignment s"
  shows "(\<forall>e \<in> set (candidate_pool (get_utilization events employees tasks q) (sg_task s)).
          score (mk_candidate (sg_task s) e)
            = int (skill_match_of (sg_task s) e) * 15 - utilization_pct e
              - int (calendar_event_count e) * 3)
       \<and> (\<forall>c \<in> set (recommendations s).
            score c = int (skill_match_of (sg_task s) (cand_entry c)) * 15
                      - utilization_pct (cand_entry c) - int (calendar_event_count (cand_entry c)) * 3)
       \<and> (0 \<le> top_n \<longrightarrow>
            (\<exists>rest. mset (recommendations s @ rest)
                       = mset (map (mk_candidate (sg_task s))
                           (candidate_pool (get_utilization events employees tasks q) (sg_task s)))
                  \<and> sorted_wrt ranks_before (recommendations s @ rest)
                  \<and> length (recommendations s)
                       = min (nat top_n)
                           (length (candidate_pool (get_utilization events employees tasks q) (sg_task s)))))"
proof -
  note s = assms(1) and needs = assms(2)
  let ?U = "get_utilization events employees tasks q"
  from s obtain t where t: "s = suggest_for_task ?U (isoformat_date (date_of q)) top_n t"
    by (rule in_suggestions)
  have st: "sg_task s = t" by (simp add: t suggest_for_task_fields)
  let ?all = "sort_key rank_key (map (mk_candidate t) (candidate_pool ?U t))"
  from needs have rec: "recommendations s = py_slice_to ?all top_n"
    unfolding t suggest_for_task_fields(3) by simp
  have sc: "\<forall>e \<in> set (candidate_pool ?U t).
          score (mk_candidate t e)
            = int (skill_match_of t e) * 15 - utilization_pct e - int (calendar_event_count e) * 3"
    by (simp add: mk_candidate_fields)
  have rc: "\<forall>c \<in> set (recommendations s).
            score c = int (skill_match_of t (cand_entry c)) * 15
                      - utilization_pct (cand_entry c) - int (calendar_event_count (cand_entry c)) * 3"
  proof
    fix c assume "c \<in> set (recommendations s)"
    then obtain e where "c = mk_candidate t e"
      unfolding t by (rule in_recommendations)
    then show "score c = int (skill_match_of t (cand_entry c)) * 15
                      - utilization_pct (cand_entry c) - int (calendar_event_count (cand_entry c)) * 3"
      by (simp add: mk_candidate_fields)
  qed
  have rk: "0 \<le> top_n \<longrightarrow>
            (\<exists>rest. mset (recommendations s @ rest) = mset (map (mk_candidate t) (candidate_pool ?U t))
                  \<and> sorted_wrt ranks_before (recommendations s @ rest)
                  \<and> length (recommendations s) = min (nat top_n) (length (candidate_pool ?U t)))"
  proof
    assume "0 \<le> top_n"
    then have r: "recommendations s = take (nat top_n) ?all"
      by (simp add: rec py_slice_to_nonneg)
    have 1: "mset (recommendations s @ drop (nat top_n) ?all) = mset (map (mk_candidate t) (candidate_pool ?U t))"
      unfolding r append_take_drop_id by (simp only: mset_sort)
    have 2: "sorted_wrt ranks_before (recommendations s @ drop (nat top_n) ?all)"
      unfolding r append_take_drop_id by (rule sorted_wrt_rank)
    have 3: "length (recommendations s) = min (nat top_n) (length (candidate_pool ?U t))"
      unfolding r by (simp add: min.commute)
    from 1 2 3 show "\<exists>rest. mset (recommendations s @ rest) = mset (map (mk_candidate t) (candidate_pool ?U t))
                  \<and> sorted_wrt ranks_before (recommendations s @ rest)
                  \<and> length (recommendations s) = min (nat top_n) (length (candidate_pool ?U t))"
      by (intro exI[where x="drop (nat top_n) ?all"] conjI)
  qed
  from sc rc rk show "(\<forall>e \<in> set (candidate_pool ?U (sg_task s)).
          score (mk_candidate (sg_task s) e)
            = int (skill_match_of (sg_task s) e) * 15 - utilization_pct e
              - int (calendar_event_count e) * 3)
       \<and> (\<forall>c \<in> set (recommendations s).
            score c = int (skill_match_of (sg_task s) (cand_entry c)) * 15
                      - utilization_pct (cand_entry c) - int (calendar_event_count (cand_entry c)) * 3)
       \<and> (0 \<le> top_n \<longrightarrow>
            (\<exists>rest. mset (recommendations s @ rest)
                       = mset (map (mk_candidate (sg_task s)) (candidate_pool ?U (sg_task s)))
                  \<and> sorted_wrt ranks_before (recommendations s @ rest)
                  \<and> length (recommendations s)
                       = min (nat top_n) (length (candidate_pool ?U (sg_task s)))))"
    unfolding st by (intro conjI)
qed

lemma needs_reassignment_iff:
  "needs_reassignment (suggest_for_task U str n t) \<longleftrightarrow> assignee_unavailable U t"
  unfolding suggest_for_task_fields(2) assignee_unavailable_def
  by (induction U) auto

lemma sg_task_suggestions:
  "mset (map sg_task (suggestions (suggest_reassignments events employees tasks q top_n)))
     = mset (filter is_active tasks)"
proof -
  let ?f = "suggest_for_task (get_utilization events employees tasks q) (isoformat_date (date_of q)) top_n"
  have "suggestions (suggest_reassignments events employees tasks q top_n)
      = sort_key suggestion_key (map ?f (filter is_active tasks))"
    by (simp add: suggest_reassignments_def Let_def)
  then have "mset (map sg_task (suggestions (suggest_reassignments events employees tasks q top_n)))
      = image_mset sg_task (mset (map ?f (filter is_active tasks)))"
    by (simp only: mset_map mset_sort)
  also have "\<dots> = mset (map (\<lambda>t. sg_task (?f t)) (filter is_active tasks))"
    by (simp add: multiset.map_comp comp_def)
  also have "\<dots> = mset (filter is_active tasks)"
    by (simp add: suggest_for_task_fields(1))
  finally show ?thesis .
qed

text \<open>
  Claim C3. The suggestions are made for the active tasks, one for each. A suggestion
  asks for a reassignment exactly when the assignee of its task is unavailable, and then
  the score of every candidate of the pool, and of every recommended candidate, is the
  number of required skills the candidate has, times 15, minus the utilization percentage,
  minus 3 for each calendar event. For a
  \<open>top_n\<close> that is not negative, the recommendations are the first \<open>top_n\<close> entries of
  the candidates sorted by score descending, ties broken by free capacity descending: they
  extend to a sorted arrangement of all candidates, and there are \<open>top_n\<close> of them, or
  all when the pool is smaller.
\<close>

theorem candidates_are_scored_and_ranked:
  "mset (map sg_task (suggestions (suggest_reassignments events employees tasks q top_n)))
     = mset (filter is_active tasks)
   \<and> (\<forall>s \<in> set (suggestions (suggest_reassignments events employees tasks q top_n)).
     (needs_reassignment s
        \<longleftrightarrow> assignee_unavailable (get_utilization events employees tasks q) (sg_task s))
     \<and> (needs_reassignment s \<longrightarrow>
       (\<forall>e \<in> set (candidate_pool (get_utilization events employees tasks q) (sg_task s)).
          score (mk_candidate (sg_task s) e)
            = int (skill_match_of (sg_task s) e) * 15 - utilization_pct e
              - int (calendar_event_count e) * 3)
       \<and> (\<forall>c \<in> set (recommendations s).
            score c = int (skill_match_of (sg_task s) (cand_entry c)) * 15
                      - utilization_pct (cand_entry c) - int (calendar_event_count (cand_entry c)) * 3)
       \<and> (0 \<le> top_n \<longrightarrow>
            (\<exists>rest. mset (recommendations s @ rest)
                       = mset (map (mk_candidate (sg_task s))
                           (candidate_pool (get_utilization events employees tasks q) (sg_task s)))
                  \<and> sorted_wrt ranks_before (recommendations s @ rest)
                  \<and> length (recommendations s)
                       = min (nat top_n)
                           (length (candidate_pool (get_utilization events employees tasks q) (sg_task s)))))))"
  (is "?one_each \<and> ?ranked")
proof (rule conjI)
  show ?one_each by (rule sg_task_suggestions)
next
  show ?ranked
  proof (intro ballI)
  fix s
  assume s: "s \<in> set (suggestions (suggest_reassignments events employees tasks q top_n))"
  then obtain t where t: "s = suggest_for_task (get_utilization events employees tasks q)
      (isoformat_date (date_of q)) top_n t"
    by (rule in_suggestions)
  have 1: "needs_reassignment s
        \<longleftrightarrow> assignee_unavailable (get_utilization events employees tasks q) (sg_task s)"
    unfolding t suggest_for_task_fields(1) by (rule needs_reassignment_iff)
  have 2: "needs_reassignment s \<longrightarrow>
       (\<forall>e \<in> set (candidate_pool (get_utilization events employees tasks q) (sg_task s)).
          score (mk_candidate (sg_task s) e)
            = int (skill_match_of (sg_task s) e) * 15 - utilization_pct e
              - int (calendar_event_count e) * 3)
       \<and> (\<forall>c \<in> set (recommendations s).
            score c = int (skill_match_of (sg_task s) (cand_entry c)) * 15
                      - utilization_pct (cand_entry c) - int (calendar_event_count (cand_entry c)) * 3)
       \<and> (0 \<le> top_n \<longrightarrow>
            (\<exists>rest. mset (recommendations s @ rest)
                       = mset (map (mk_candidate (sg_task s))
                           (candidate_pool (get_utilization events employees tasks q) (sg_task s)))
                  \<and> sorted_wrt ranks_before (recommendations s @ rest)
                  \<and> length (recommendations s)
                       = min (nat top_n)
                           (length (candidate_pool (get_utilization events employees tasks q) (sg_task s)))))"
  proof
    assume "needs_reassignment s"
    with s show "(\<forall>e \<in> set (candidate_pool (get_utilization events employees tasks q) (sg_task s)).
          score (mk_candidate (sg_task s) e)
            = int (skill_match_of (sg_task s) e) * 15 - utilization_pct e
              - int (calendar_event_count e) * 3)
       \<and> (\<forall>c \<in> set (recommendations s).
            score c = int (skill_match_of (sg_task s) (cand_entry c)) * 15
                      - utilization_pct (cand_entry c) - int (calendar_event_count (cand_entry c)) * 3)
       \<and> (0 \<le> top_n \<longrightarrow>
            (\<exists>rest. mset (recommendations s @ rest)
                       = mset (map (mk_candidate (sg_task s))
                           (candidate_pool (get_utilization events employees tasks q) (sg_task s)))
                  \<and> sorted_wrt ranks_before (recommendations s @ rest)
                  \<and> length (recommendations s)
                       = min (nat top_n)
                           (length (candidate_pool (get_utilization events employees tasks q) (sg_task s)))))"
      by (rule ranking_core)
  qed
  from 1 2 show "(needs_reassignment s
        \<longleftrightarrow> assignee_unavailable (get_utilization events employees tasks q) (sg_task s))
     \<and> (needs_reassignment s \<longrightarrow>
       (\<forall>e \<in> set (candidate_pool (get_utilization events employees tasks q) (sg_task s)).
          score (mk_candidate (sg_task s) e)
            = int (skill_match_of (sg_task s) e) * 15 - utilization_pct e
              - int (calendar_event_count e) * 3)
       \<and> (\<forall>c \<in> set (recommendations s).
            score c = int (skill_match_of (sg_task s) (cand_entry c)) * 15
                      - utilization_pct (cand_entry c) - int (calendar_event_count (cand_entry c)) * 3)
       \<and> (0 \<le> top_n \<longrightarrow>
            (\<exists>rest. mset (recommendations s @ rest)
                       = mset (map (mk_candidate (sg_task s))
                           (candidate_pool (get_utilization events employees tasks q) (sg_task s)))
                  \<and> sorted_wrt ranks_before (recommendations s @ rest)
                  \<and> length (recommendations s)
                       = min (nat top_n)
                           (length (candidate_pool (get_utilization events employees tasks q) (sg_task s))))))"
    by (rule conjI)
  qed
qed

theorem candidates_are_scored_and_ranked_witness:
  "map (\<lambda>s. (task_id (sg_task s), needs_reassignment s,
             map (\<lambda>c. (emp_id (ue_emp (cand_entry c)), skill_match_count c,
                       utilization_pct (cand_entry c), calendar_event_count (cand_entry c), score c))
               (recommendations s)))
      (suggestions (suggest_reassignments sample_events sample_roster sample_tasks (midnight 2026 3 2) 1))
     = [(''T1'', True, [(2, 1, 25, 1, - 13)]), (''T2'', False, []), (''T4'', False, [])]
   \<and> (0::int) \<le> 1
   \<and> list_all (\<lambda>s. needs_reassignment s \<longrightarrow>
          length (recommendations s)
            = min (nat 1) (length (candidate_pool
                (get_utilization sample_events sample_roster sample_tasks (midnight 2026 3 2)) (sg_task s))))
        (suggestions (suggest_reassignments sample_events sample_roster sample_tasks (midnight 2026 3 2) 1))"
proof -
  have a: "map (\<lambda>s. (task_id (sg_task s), needs_reassignment s,
             map (\<lambda>c. (emp_id (ue_emp (cand_entry c)), skill_match_count c,
                       utilization_pct (cand_entry c), calendar_event_count (cand_entry c), score c))
               (recommendations s)))
      (suggestions (suggest_reassignments sample_events sample_roster sample_tasks (midnight 2026 3 2) 1))
     = [(''T1'', True, [(2, 1, 25, 1, - 13)]), (''T2'', False, []), (''T4'', False, [])]"
    by code_simp
  note t = candidates_are_scored_and_ranked
    [of sample_events sample_roster sample_tasks "midnight 2026 3 2" 1, THEN conjunct2]
  have z: "(0::int) \<le> 1" by simp
  have b: "\<forall>s \<in> set (suggestions (suggest_reassignments sample_events sample_roster sample_tasks
                        (midnight 2026 3 2) 1)).
        needs_reassignment s \<longrightarrow>
          length (recommendations s)
            = min (nat 1) (length (candidate_pool
                (get_utilization sample_events sample_roster sample_tasks (midnight 2026 3 2)) (sg_task s)))"
  proof (intro ballI impI)
    fix s
    assume "s \<in> set (suggestions (suggest_reassignments sample_events sample_roster sample_tasks
                        (midnight 2026 3 2) 1))" "needs_reassignment s"
    with t z show "length (recommendations s)
            = min (nat 1) (length (candidate_pool
                (get_utilization sample_events sample_roster sample_tasks (midnight 2026 3 2)) (sg_task s)))"
      by blast
  qed
  from a z b show ?thesis unfolding list_all_iff by blast
qed

subsection \<open>Executing a reassignment\<close>

lemma update_first_nth:
  assumes "i < length xs" "P (xs ! i)" "\<forall>j<i. \<not> P (xs ! j)"
  shows "update_first P f xs = xs[i := f (xs ! i)]"
  using assms
proof (induction xs arbitrary: i)
  case Nil
  then show ?case by simp
next
  case (Cons x xs)
  show ?case
  proof (cases i)
    case 0
    with Cons.prems show ?thesis by simp
  next
    case (Suc k)
    with Cons.prems have nx: "\<not> P x" by auto
    from Suc Cons.prems have "k < length xs" "P (xs ! k)" "\<forall>j<k. \<not> P (xs ! j)" by auto
    then have "update_first P f xs = xs[k := f (xs ! k)]" by (rule Cons.IH)
    with nx Suc show ?thesis by simp
  qed
qed

lemma find_task_None: "tid \<notin> task_id ` set ts \<Longrightarrow> List.find (\<lambda>t. task_id t = tid) ts = None"
  by (induction ts) auto

lemma find_emp_None: "new \<notin> emp_id ` set es \<Longrightarrow> List.find (\<lambda>e. emp_id e = new) es = None"
  by (induction es) auto

lemma find_first:
  assumes "\<exists>x \<in> set xs. P x"
  obtains i where "i < length xs" "P (xs ! i)" "\<forall>j<i. \<not> P (xs ! j)" "List.find P xs = Some (xs ! i)"
proof -
  from assms obtain x where "List.find P xs = Some x"
    by (cases "List.find P xs") (auto simp: find_None_iff)
  then obtain i where "i < length xs" "P (xs ! i)" "x = xs ! i" "\<forall>j<i. \<not> P (xs ! j)"
    unfolding find_Some_iff by blast
  with \<open>List.find P xs = Some x\<close> show ?thesis using that by simp
qed

lemma execute_task_missing:
  assumes "tid \<notin> task_id ` set (db_tasks db)"
  shows "execute_reassignment now1 now2 db tid new why = (Inl (Task_not_found tid), db)"
  by (simp add: execute_reassignment_def find_task_None[OF assms])

lemma execute_employee_missing:
  assumes "tid \<in> task_id ` set (db_tasks db)" "new \<notin> emp_id ` set (db_employees db)"
  shows "execute_reassignment now1 now2 db tid new why = (Inl (Employee_not_found new), db)"
proof -
  from assms(1) have "\<exists>t \<in> set (db_tasks db). task_id t = tid" by blast
  then obtain i where "List.find (\<lambda>t. task_id t = tid) (db_tasks db) = Some (db_tasks db ! i)"
    by (rule find_first)
  then show ?thesis
    by (simp add: execute_reassignment_def find_emp_None[OF assms(2)])
qed

lemma execute_failure_keeps_store:
  "isl (fst (execute_reassignment now1 now2 db tid new why))
     \<Longrightarrow> snd (execute_reassignment now1 now2 db tid new why) = db"
  by (simp add: execute_reassignment_def Let_def split: option.splits)

lemma execute_success:
  assumes "tid \<in> task_id ` set (db_tasks db)" "new \<in> emp_id ` set (db_employees db)"
  shows "\<exists>i e. i < length (db_tasks db) \<and> task_id (db_tasks db ! i) = tid
      \<and> (\<forall>j<i. task_id (db_tasks db ! j) \<noteq> tid)
      \<and> e \<in> set (db_employees db) \<and> emp_id e = new
      \<and> execute_reassignment now1 now2 db tid new why =
          (Inr \<lparr>audit_task_id = tid, audit_task_title = task_title (db_tasks db ! i),
                from_employee_id = assigned_to_id (db_tasks db ! i),
                from_employee_name =
                  (case List.find (\<lambda>e. Some (emp_id e) = assigned_to_id (db_tasks db ! i)) (db_employees db) of
                     None \<Rightarrow> ''Unknown'' | Some e \<Rightarrow> full_name e),
                to_employee_id = new, to_employee_name = full_name e,
                audit_reason = why, executed_at = now2\<rparr>,
           db\<lparr>db_tasks := (db_tasks db)[i := reassigned (db_tasks db ! i) new now1 why]\<rparr>)"
proof -
  from assms(1) have "\<exists>t \<in> set (db_tasks db). task_id t = tid" by blast
  then obtain i where i: "i < length (db_tasks db)" "task_id (db_tasks db ! i) = tid"
    "\<forall>j<i. \<not> task_id (db_tasks db ! j) = tid"
    "List.find (\<lambda>t. task_id t = tid) (db_tasks db) = Some (db_tasks db ! i)"
    by (rule find_first)
  from assms(2) have "\<exists>e \<in> set (db_employees db). emp_id e = new" by blast
  then obtain k where k: "k < length (db_employees db)" "emp_id (db_employees db ! k) = new"
    "List.find (\<lambda>e. emp_id e = new) (db_employees db) = Some (db_employees db ! k)"
    by (rule find_first)
  have u: "update_first (\<lambda>t. task_id t = tid) (\<lambda>t. reassigned t new now1 why) (db_tasks db)
      = (db_tasks db)[i := reassigned (db_tasks db ! i) new now1 why]"
    using i(1,2,3) by (rule update_first_nth)
  have ex: "execute_reassignment now1 now2 db tid new why =
          (Inr \<lparr>audit_task_id = tid, audit_task_title = task_title (db_tasks db ! i),
                from_employee_id = assigned_to_id (db_tasks db ! i),
                from_employee_name =
                  (case List.find (\<lambda>e. Some (emp_id e) = assigned_to_id (db_tasks db ! i)) (db_employees db) of
                     None \<Rightarrow> ''Unknown'' | Some e \<Rightarrow> full_name e),
                to_employee_id = new, to_employee_name = full_name (db_employees db ! k),
                audit_reason = why, executed_at = now2\<rparr>,
           db\<lparr>db_tasks := (db_tasks db)[i := reassigned (db_tasks db ! i) new now1 why]\<rparr>)"
    unfolding execute_reassignment_def i(4) k(3) option.case Let_def
    using u by (simp add: reassigned_def)
  from k(1) have mem: "db_employees db ! k \<in> set (db_employees db)" by simp
  from i(1,2,3) mem k(2) ex show ?thesis
    by (intro exI[where x=i] exI[where x="db_employees db ! k"] conjI) simp_all
qed

text \<open>
  Claim C5. When the task id is not in the store, or the task is there and the new
  assignee is not, \<^verbatim>\<open>execute_reassignment\<close> fails with the not-found error and the
  store is what it was: every failure leaves the store unchanged, since both lookups come
  before the first assignment and before the file is opened for writing. When both ids are
  in the store, the first task with that id gets the new assignee, the timestamp and the
  reason, every other task and the roster stay as they were, the store is written, and the
  audit record names the task, the former and the new assignee, the reason and the time.
\<close>

theorem execute_reassignment_rejects_before_writing:
  "(tid \<notin> task_id ` set (db_tasks db) \<longrightarrow>
      execute_reassignment now1 now2 db tid new why = (Inl (Task_not_found tid), db))
   \<and> (tid \<in> task_id ` set (db_tasks db) \<and> new \<notin> emp_id ` set (db_employees db) \<longrightarrow>
      execute_reassignment now1 now2 db tid new why = (Inl (Employee_not_found new), db))
   \<and> (isl (fst (execute_reassignment now1 now2 db tid new why)) \<longrightarrow>
      snd (execute_reassignment now1 now2 db tid new why) = db)
   \<and> (tid \<in> task_id ` set (db_tasks db) \<and> new \<in> emp_id ` set (db_employees db) \<longrightarrow>
      (\<exists>i e. i < length (db_tasks db) \<and> task_id (db_tasks db ! i) = tid
        \<and> (\<forall>j<i. task_id (db_tasks db ! j) \<noteq> tid)
        \<and> e \<in> set (db_employees db) \<and> emp_id e = new
        \<and> execute_reassignment now1 now2 db tid new why =
          (Inr \<lparr>audit_task_id = tid, audit_task_title = task_title (db_tasks db ! i),
                from_employee_id = assigned_to_id (db_tasks db ! i),
                from_employee_name =
                  (case List.find (\<lambda>e. Some (emp_id e) = assigned_to_id (db_tasks db ! i)) (db_employees db) of
                     None \<Rightarrow> ''Unknown'' | Some e \<Rightarrow> full_name e),
                to_employee_id = new, to_employee_name = full_name e,
                audit_reason = why, executed_at = now2\<rparr>,
           db\<lparr>db_tasks := (db_tasks db)[i := reassigned (db_tasks db ! i) new now1 why]\<rparr>)))"
proof (intro conjI impI)
  assume "tid \<notin> task_id ` set (db_tasks db)"
  then show "execute_reassignment now1 now2 db tid new why = (Inl (Task_not_found tid), db)"
    by (rule execute_task_missing)
next
  assume "tid \<in> task_id ` set (db_tasks db) \<and> new \<notin> emp_id ` set (db_employees db)"
  then show "execute_reassignment now1 now2 db tid new why = (Inl (Employee_not_found new), db)"
    by (elim conjE) (rule execute_employee_missing)
next
  assume "isl (fst (execute_reassignment now1 now2 db tid new why))"
  then show "snd (execute_reassignment now1 now2 db tid new why) = db"
    by (rule execute_failure_keeps_store)
next
  assume "tid \<in> task_id ` set (db_tasks db) \<and> new \<in> emp_id ` set (db_employees db)"
  then show "\<exists>i e. i < length (db_tasks db) \<and> task_id (db_tasks db ! i) = tid
        \<and> (\<forall>j<i. task_id (db_tasks db ! j) \<noteq> tid)
        \<and> e \<in> set (db_employees db) \<and> emp_id e = new
        \<and> execute_reassignment now1 now2 db tid new why =
          (Inr \<lparr>audit_task_id = tid, audit_task_title = task_title (db_tasks db ! i),
                from_employee_id = assigned_to_id (db_tasks db ! i),
                from_employee_name =
                  (case List.find (\<lambda>e. Some (emp_id e) = assigned_to_id (db_tasks db ! i)) (db_employees db) of
                     None \<Rightarrow> ''Unknown'' | Some e \<Rightarrow> full_name e),
                to_employee_id = new, to_employee_name = full_name e,
                audit_reason = why, executed_at = now2\<rparr>,
           db\<lparr>db_tasks := (db_tasks db)[i := reassigned (db_tasks db ! i) new now1 why]\<rparr>)"
    by (elim conjE) (rule execute_success)
qed

theorem execute_reassignment_rejects_before_writing_witness:
  "execute_reassignment ''t1'' ''t2'' sample_store ''T9'' 2 ''cover'' = (Inl (Task_not_found ''T9''), sample_store)
   \<and> execute_reassignment ''t1'' ''t2'' sample_store ''T1'' 5 ''cover'' = (Inl (Employee_not_found 5), sample_store)
   \<and> fst (execute_reassignment ''t1'' ''t2'' sample_store ''T1'' 2 ''cover'')
       = Inr \<lparr>audit_task_id = ''T1'', audit_task_title = Some ''Fix checkout'',
              from_employee_id = Some 1, from_employee_name = ''Al Ng'',
              to_employee_id = 2, to_employee_name = ''Bo Li'',
              audit_reason = ''cover'', executed_at = ''t2''\<rparr>
   \<and> map (\<lambda>t. (task_id t, assigned_to_id t, last_reassigned t, reassignment_reason t))
        (db_tasks (snd (execute_reassignment ''t1'' ''t2'' sample_store ''T1'' 2 ''cover'')))
       = [(''T1'', Some 2, Some ''t1'', Some ''cover''), (''T2'', Some 7, None, None),
          (''T3'', Some 2, None, None), (''T4'', Some 2, None, None)]"
proof -
  note t = execute_reassignment_rejects_before_writing
  have h1: "''T9'' \<notin> task_id ` set (db_tasks sample_store)" by code_simp
  have h2: "''T1'' \<in> task_id ` set (db_tasks sample_store) \<and> 5 \<notin> emp_id ` set (db_employees sample_store)"
    by code_simp
  have a: "execute_reassignment ''t1'' ''t2'' sample_store ''T9'' 2 ''cover'' = (Inl (Task_not_found ''T9''), sample_store)"
    using t [of "''T9''" sample_store "''t1''" "''t2''" 2 "''cover''"] h1 by blast
  have b: "execute_reassignment ''t1'' ''t2'' sample_store ''T1'' 5 ''cover'' = (Inl (Employee_not_found 5), sample_store)"
    using t [of "''T1''" sample_store "''t1''" "''t2''" 5 "''cover''"] h2 by blast
  have c: "fst (execute_reassignment ''t1'' ''t2'' sample_store ''T1'' 2 ''cover'')
       = Inr \<lparr>audit_task_id = ''T1'', audit_task_title = Some ''Fix checkout'',
              from_employee_id = Some 1, from_employee_name = ''Al Ng'',
              to_employee_id = 2, to_employee_name = ''Bo Li'',
              audit_reason = ''cover'', executed_at = ''t2''\<rparr>"
    by code_simp
  have d: "map (\<lambda>t. (task_id t, assigned_to_id t, last_reassigned t, reassignment_reason t))
        (db_tasks (snd (execute_reassignment ''t1'' ''t2'' sample_store ''T1'' 2 ''cover'')))
       = [(''T1'', Some 2, Some ''t1'', Some ''cover''), (''T2'', Some 7, None, None),
          (''T3'', Some 2, None, None), (''T4'', Some 2, None, None)]"
    by code_simp
  from a b c d show ?thesis by (intro conjI)
qed

end
